theory Spec2Isabelle
  imports Main "HOL-Library.AList"
begin

section \<open>Python values and builtins used by the search layer\<close>

text \<open>
  The adapters read upstream JSON with \<^verbatim>\<open>dict.get\<close> and never check a type, so the
  values are modelled dynamically: a JSON document is a value of \<open>json\<close>, and every
  builtin that Python would reject at run time returns the exception as a value.
  Numbers are carried as integers: no modelled function computes with them.
  A dict is an association list read with \<open>map_of\<close>; its keys are distinct, as in Python.
\<close>

datatype json =
    JNull
  | JBool bool
  | JNum int
  | JStr string
  | JArr "json list"
  | JObj "(string \<times> json) list"

type_synonym pydict = "(string \<times> json) list"

text \<open>
  \<open>InvalidProviderKey k s\<close> is the \<^verbatim>\<open>ValueError\<close> of \<^verbatim>\<open>_validate_provider_key\<close>, whose message
  names the key \<open>k\<close> and prints the supported set \<open>s\<close>. \<open>UpstreamError\<close> is whatever the
  transport raises (network failure, \<^verbatim>\<open>raise_for_status\<close>, an unparsable body).
\<close>

datatype py_error =
    ValueError string
  | InvalidProviderKey string "string set"
  | TypeError
  | AttributeError
  | KeyError string
  | ImportError string
  | UpstreamError string

text \<open>Sequencing of computations that may raise.\<close>

definition bind_err :: "py_error + 'a \<Rightarrow> ('a \<Rightarrow> py_error + 'b) \<Rightarrow> py_error + 'b" where
  "bind_err m f = (case m of Inl e \<Rightarrow> Inl e | Inr x \<Rightarrow> f x)"

text \<open>A list comprehension whose body may raise: the first failing element aborts it.\<close>

fun traverse :: "('a \<Rightarrow> py_error + 'b) \<Rightarrow> 'a list \<Rightarrow> py_error + 'b list" where
  "traverse f [] = Inr []"
| "traverse f (x # xs) =
     (case f x of
        Inl e \<Rightarrow> Inl e
      | Inr y \<Rightarrow> (case traverse f xs of Inl e \<Rightarrow> Inl e | Inr ys \<Rightarrow> Inr (y # ys)))"

text \<open>\<^verbatim>\<open>d.get(k, default)\<close> on a dict.\<close>

definition dict_get :: "(string \<times> 'v) list \<Rightarrow> string \<Rightarrow> 'v \<Rightarrow> 'v" where
  "dict_get d k dflt = (case map_of d k of None \<Rightarrow> dflt | Some v \<Rightarrow> v)"

text \<open>\<^verbatim>\<open>d[k]\<close> on a dict.\<close>

definition dict_index :: "(string \<times> 'v) list \<Rightarrow> string \<Rightarrow> py_error + 'v" where
  "dict_index d k = (case map_of d k of None \<Rightarrow> Inl (KeyError k) | Some v \<Rightarrow> Inr v)"

text \<open>\<^verbatim>\<open>v.get(k, default)\<close> on any value: only a dict has the method.\<close>

fun py_get :: "json \<Rightarrow> string \<Rightarrow> json \<Rightarrow> py_error + json" where
  "py_get (JObj d) k dflt = Inr (dict_get d k dflt)"
| "py_get _ k dflt = Inl AttributeError"

text \<open>
  Iteration, as \<^verbatim>\<open>for x in v\<close> or \<^verbatim>\<open>str.join(v)\<close> perform it: a list gives its elements, a
  dict its keys, a string its characters; \<^verbatim>\<open>None\<close>, booleans and numbers are not iterable.
\<close>

fun py_iter :: "json \<Rightarrow> py_error + json list" where
  "py_iter (JArr xs) = Inr xs"
| "py_iter (JObj d) = Inr (map (\<lambda>kv. JStr (fst kv)) d)"
| "py_iter (JStr s) = Inr (map (\<lambda>c. JStr [c]) s)"
| "py_iter _ = Inl TypeError"

text \<open>Truth value testing, as \<^verbatim>\<open>or\<close>, \<^verbatim>\<open>not\<close> and \<^verbatim>\<open>if\<close> apply it.\<close>

fun truthy :: "json \<Rightarrow> bool" where
  "truthy JNull = False"
| "truthy (JBool b) = b"
| "truthy (JNum n) = (n \<noteq> 0)"
| "truthy (JStr s) = (s \<noteq> [])"
| "truthy (JArr xs) = (xs \<noteq> [])"
| "truthy (JObj d) = (d \<noteq> [])"

text \<open>\<^verbatim>\<open>isinstance(v, str)\<close>.\<close>

fun is_str :: "json \<Rightarrow> bool" where
  "is_str (JStr s) = True"
| "is_str _ = False"

text \<open>\<^verbatim>\<open>sep.join(v)\<close>: every element of the iterable must be a string.\<close>

fun the_strs :: "json list \<Rightarrow> py_error + string list" where
  "the_strs [] = Inr []"
| "the_strs (JStr s # vs) = (case the_strs vs of Inl e \<Rightarrow> Inl e | Inr ss \<Rightarrow> Inr (s # ss))"
| "the_strs (_ # vs) = Inl TypeError"

fun intersperse_str :: "string \<Rightarrow> string list \<Rightarrow> string" where
  "intersperse_str sep [] = []"
| "intersperse_str sep [s] = s"
| "intersperse_str sep (s # t # ss) = s @ sep @ intersperse_str sep (t # ss)"

definition py_join :: "string \<Rightarrow> json \<Rightarrow> py_error + string" where
  "py_join sep v =
     bind_err (py_iter v) (\<lambda>xs. bind_err (the_strs xs) (\<lambda>ss. Inr (intersperse_str sep ss)))"

text \<open>
  \<^verbatim>\<open>str(v)\<close>, as an f-string applies it to a replacement field: a string is inserted as it
  is, any other value through its \<^verbatim>\<open>repr\<close>. The \<^verbatim>\<open>repr\<close> of the interpreter is a parameter.
\<close>

fun py_str :: "(json \<Rightarrow> string) \<Rightarrow> json \<Rightarrow> string" where
  "py_str repr (JStr s) = s"
| "py_str repr v = repr v"

text \<open>
  \<^verbatim>\<open>{**base, **kwargs}\<close> and \<^verbatim>\<open>base.update(kwargs)\<close>: the entries of \<open>kwargs\<close> are written
  into \<open>base\<close> from left to right, a present key keeping its position.
\<close>

definition dict_merge :: "(string \<times> 'v) list \<Rightarrow> (string \<times> 'v) list \<Rightarrow> (string \<times> 'v) list" where
  "dict_merge base kwargs = fold (\<lambda>kv d. AList.update (fst kv) (snd kv) d) kwargs base"

text \<open>\<^verbatim>\<open>s.partition(sep)\<close> for a one-character separator.\<close>

fun partition_str :: "char \<Rightarrow> string \<Rightarrow> string \<times> string \<times> string" where
  "partition_str sep [] = ([], [], [])"
| "partition_str sep (c # cs) =
     (if c = sep then ([], [sep], cs)
      else (case partition_str sep cs of (h, m, t) \<Rightarrow> (c # h, m, t)))"

section \<open>search\_provider.py: the result model\<close>

text \<open>
  The dataclass declares four \<^verbatim>\<open>str\<close> fields and checks none of them: a field holds
  whatever the adapter passed. \<open>source\<close> is always built from literals and f-strings.
\<close>

record search_result =
  title :: json
  url :: json
  content :: json
  source :: string

section \<open>The outside world\<close>

text \<open>
  A request is one call that leaves the process: \<^verbatim>\<open>GoogleSearch(params).get_dict()\<close>,
  \<^verbatim>\<open>TavilyClient(api_key).search(query, **kwargs)\<close>, or
  \<^verbatim>\<open>httpx.Client().get(url, params=params, headers=headers)\<close> followed by
  \<^verbatim>\<open>raise_for_status()\<close> and \<^verbatim>\<open>json()\<close>.
\<close>

datatype request =
    GoogleSearch pydict
  | TavilySearch string string pydict
  | HttpxGet string pydict "(string \<times> string) list"

text \<open>
  The observable events: \<open>Instantiate c\<close> is the call \<^verbatim>\<open>provider_class(**config)\<close> of the class
  named \<open>c\<close>; \<open>Call r\<close> is a request handed to the transport.
\<close>

datatype event = Instantiate string | Call request

type_synonym config = "(string \<times> string) list"

text \<open>
  The process state: the environment variables, the file names in \<^verbatim>\<open>PROVIDERS_DIR\<close>, the
  memo table of \<^verbatim>\<open>functools.cache\<close> on \<^verbatim>\<open>get_supported_providers\<close>, the heap of configuration
  dicts (address \<open>0\<close> holds the dict created once for the default argument of
  \<^verbatim>\<open>SearchClient.__init__\<close>), the upstream services, the interpreter's \<^verbatim>\<open>repr\<close>, and the
  trace of events so far.
\<close>

record world =
  environ :: "string \<Rightarrow> string option"
  providers_dir :: "string list"
  supported_cache :: "string set option"
  dict_heap :: "nat \<Rightarrow> (string \<times> config) list"
  upstream :: "request \<Rightarrow> py_error + json"
  py_repr :: "json \<Rightarrow> string"
  trace :: "event list"

definition emit :: "event \<Rightarrow> world \<Rightarrow> world" where
  "emit ev w = w\<lparr>trace := trace w @ [ev]\<rparr>"

text \<open>Hand a request to the transport, recording it.\<close>

definition call_upstream :: "request \<Rightarrow> world \<Rightarrow> (py_error + json) \<times> world" where
  "call_upstream r w = (upstream w r, emit (Call r) w)"

section \<open>search\_providers: the three adapters\<close>

text \<open>
  An adapter instance holds its \<^verbatim>\<open>api_key\<close>; the You.com header dict and the SDK clients
  are determined by it.
\<close>

datatype adapter =
    SerpSearchProvider string
  | TavilySearchProvider string
  | YouSearchProvider string

text \<open>
  \<^verbatim>\<open>api_key or os.getenv(NAME)\<close> on \<^verbatim>\<open>str\<close>-or-\<^verbatim>\<open>None\<close> operands, and the test
  \<^verbatim>\<open>if not self.api_key\<close>: \<^verbatim>\<open>None\<close> and the empty string are both false.
\<close>

definition or_getenv :: "string option \<Rightarrow> string option \<Rightarrow> string option" where
  "or_getenv api_key env =
     (case api_key of None \<Rightarrow> env | Some k \<Rightarrow> (if k \<noteq> [] then Some k else env))"

definition resolve_key :: "string \<Rightarrow> string option \<Rightarrow> string option \<Rightarrow> py_error + string" where
  "resolve_key msg api_key env =
     (case or_getenv api_key env of
        None \<Rightarrow> Inl (ValueError msg)
      | Some k \<Rightarrow> (if k = [] then Inl (ValueError msg) else Inr k))"

definition SerpSearchProvider_init :: "(string \<Rightarrow> string option) \<Rightarrow> string option \<Rightarrow> py_error + adapter" where
  "SerpSearchProvider_init env api_key =
     bind_err (resolve_key
        ''SerpAPI key is required. Either pass it to the constructor or set SERP_API_KEY environment variable.''
        api_key (env ''SERP_API_KEY''))
       (\<lambda>k. Inr (SerpSearchProvider k))"

definition TavilySearchProvider_init :: "(string \<Rightarrow> string option) \<Rightarrow> string option \<Rightarrow> py_error + adapter" where
  "TavilySearchProvider_init env api_key =
     bind_err (resolve_key
        ''Tavily API key is required. Either pass it to the constructor or set TAVILY_API_KEY environment variable.''
        api_key (env ''TAVILY_API_KEY''))
       (\<lambda>k. Inr (TavilySearchProvider k))"

definition YouSearchProvider_init :: "(string \<Rightarrow> string option) \<Rightarrow> string option \<Rightarrow> py_error + adapter" where
  "YouSearchProvider_init env api_key =
     bind_err (resolve_key
        ''You.com API key is required. Either pass it to the constructor or set YOU_COM_API_KEY environment variable.''
        api_key (env ''YOU_COM_API_KEY''))
       (\<lambda>k. Inr (YouSearchProvider k))"

subsection \<open>serp\_search\_provider.py\<close>

text \<open>The body of the comprehension of \<^verbatim>\<open>youtube_search\<close>, for one element.\<close>

definition video_result :: "(json \<Rightarrow> string) \<Rightarrow> json \<Rightarrow> py_error + search_result" where
  "video_result repr result =
     bind_err (py_get result ''title'' (JStr [])) (\<lambda>t.
     bind_err (py_get result ''link'' (JStr [])) (\<lambda>u.
     bind_err (py_get result ''duration'' (JStr ''N/A'')) (\<lambda>dur.
     bind_err (py_get result ''views'' (JStr ''N/A'')) (\<lambda>views.
     bind_err (py_get result ''channel'' (JObj [])) (\<lambda>ch.
     bind_err (py_get ch ''name'' (JStr ''N/A'')) (\<lambda>name.
     bind_err (py_get result ''description'' (JStr [])) (\<lambda>descr.
       Inr \<lparr>title = t, url = u,
            content = JStr (''Duration: '' @ py_str repr dur @ '' | ''
                          @ ''Views: '' @ py_str repr views @ '' | ''
                          @ ''Channel: '' @ py_str repr name @ '' | ''
                          @ ''Description: '' @ py_str repr descr),
            source = ''serpapi:youtube''\<rparr>)))))))"

text \<open>Reading the result array of a response and mapping every element of it.\<close>

definition map_results :: "json \<Rightarrow> string \<Rightarrow> (json \<Rightarrow> py_error + search_result) \<Rightarrow> py_error + search_result list" where
  "map_results response key body =
     bind_err (py_get response key (JArr [])) (\<lambda>arr.
     bind_err (py_iter arr) (\<lambda>elems. traverse body elems))"

definition youtube_search :: "string \<Rightarrow> string \<Rightarrow> pydict \<Rightarrow> world \<Rightarrow> (py_error + search_result list) \<times> world" where
  "youtube_search api_key query kwargs w =
     (let params = dict_merge [(''q'', JStr query), (''api_key'', JStr api_key), (''engine'', JStr ''youtube'')] kwargs
      in case call_upstream (GoogleSearch params) w of
           (Inl e, w') \<Rightarrow> (Inl e, w')
         | (Inr results, w') \<Rightarrow> (map_results results ''video_results'' (video_result (py_repr w)), w'))"

text \<open>The body of the comprehension of \<^verbatim>\<open>SerpSearchProvider.search\<close>, for one element.\<close>

definition organic_result :: "(json \<Rightarrow> string) \<Rightarrow> pydict \<Rightarrow> json \<Rightarrow> py_error + search_result" where
  "organic_result repr params result =
     bind_err (py_get result ''title'' (JStr [])) (\<lambda>t.
     bind_err (py_get result ''link'' (JStr [])) (\<lambda>u.
     bind_err (py_get result ''snippet'' (JStr [])) (\<lambda>c.
     bind_err (dict_index params ''engine'') (\<lambda>e.
       Inr \<lparr>title = t, url = u, content = c, source = ''serpapi:'' @ py_str repr e\<rparr>))))"

text \<open>
  The request parameters of the default path: the literal dict with \<^verbatim>\<open>**kwargs\<close> spread
  last, then \<^verbatim>\<open>params["engine"] = specific_function\<close> when the token is true.
\<close>

definition serp_params :: "string \<Rightarrow> string \<Rightarrow> string option \<Rightarrow> pydict \<Rightarrow> pydict" where
  "serp_params api_key query specific_function kwargs =
     (let params = dict_merge [(''q'', JStr query), (''api_key'', JStr api_key), (''engine'', JStr ''google'')] kwargs
      in case specific_function of
           None \<Rightarrow> params
         | Some f \<Rightarrow> (if f \<noteq> [] then AList.update ''engine'' (JStr f) params else params))"

text \<open>\<^verbatim>\<open>SerpSearchProvider.search\<close> (its \<^verbatim>\<open>print\<close> to standard output is left out).\<close>

definition serp_search :: "string \<Rightarrow> string \<Rightarrow> string option \<Rightarrow> pydict \<Rightarrow> world \<Rightarrow> (py_error + search_result list) \<times> world" where
  "serp_search api_key query specific_function kwargs w =
     (if specific_function = Some ''youtube'' then youtube_search api_key query kwargs w
      else
        (let params = serp_params api_key query specific_function kwargs
         in case call_upstream (GoogleSearch params) w of
              (Inl e, w') \<Rightarrow> (Inl e, w')
            | (Inr results, w') \<Rightarrow>
                (map_results results ''organic_results'' (organic_result (py_repr w) params), w')))"

subsection \<open>tavily\_search\_provider.py\<close>

definition tavily_result :: "json \<Rightarrow> py_error + search_result" where
  "tavily_result result =
     bind_err (py_get result ''title'' (JStr [])) (\<lambda>t.
     bind_err (py_get result ''url'' (JStr [])) (\<lambda>u.
     bind_err (py_get result ''content'' (JStr [])) (\<lambda>c.
       Inr \<lparr>title = t, url = u, content = c, source = ''tavily''\<rparr>)))"

definition tavily_search :: "string \<Rightarrow> string \<Rightarrow> string option \<Rightarrow> pydict \<Rightarrow> world \<Rightarrow> (py_error + search_result list) \<times> world" where
  "tavily_search api_key query specific_function kwargs w =
     (case call_upstream (TavilySearch api_key query kwargs) w of
        (Inl e, w') \<Rightarrow> (Inl e, w')
      | (Inr response, w') \<Rightarrow> (map_results response ''results'' tavily_result, w'))"

subsection \<open>you\_search\_provider.py\<close>

definition BASE_URL :: string where
  "BASE_URL = ''https://api.ydc-index.io''"

definition you_headers :: "string \<Rightarrow> (string \<times> string) list" where
  "you_headers api_key = [(''X-API-Key'', api_key)]"

definition news_result :: "json \<Rightarrow> py_error + search_result" where
  "news_result result =
     bind_err (py_get result ''title'' (JStr [])) (\<lambda>t.
     bind_err (py_get result ''url'' (JStr [])) (\<lambda>u.
     bind_err (py_get result ''description'' (JStr [])) (\<lambda>c.
       Inr \<lparr>title = t, url = u, content = c, source = ''you.com:news''\<rparr>)))"

definition get_news :: "string \<Rightarrow> string \<Rightarrow> pydict \<Rightarrow> world \<Rightarrow> (py_error + search_result list) \<times> world" where
  "get_news api_key query kwargs w =
     (let params = dict_merge [(''q'', JStr query)] kwargs
      in case call_upstream (HttpxGet (BASE_URL @ ''/news?q='' @ query) params (you_headers api_key)) w of
           (Inl e, w') \<Rightarrow> (Inl e, w')
         | (Inr data, w') \<Rightarrow>
             (bind_err (py_get data ''news'' (JObj [])) (\<lambda>news. map_results news ''results'' news_result), w'))"

text \<open>
  \<^verbatim>\<open>hit.get("description", "") or " ".join(hit.get("snippets", []))\<close>: the right operand is
  evaluated only when the left one is false.
\<close>

definition hit_content :: "json \<Rightarrow> py_error + json" where
  "hit_content hit =
     bind_err (py_get hit ''description'' (JStr [])) (\<lambda>d.
       if truthy d then Inr d
       else bind_err (py_get hit ''snippets'' (JArr [])) (\<lambda>sn.
            bind_err (py_join '' '' sn) (\<lambda>s. Inr (JStr s))))"

definition hit_result :: "json \<Rightarrow> py_error + search_result" where
  "hit_result hit =
     bind_err (py_get hit ''title'' (JStr [])) (\<lambda>t.
     bind_err (py_get hit ''url'' (JStr [])) (\<lambda>u.
     bind_err (hit_content hit) (\<lambda>c.
       Inr \<lparr>title = t, url = u, content = c, source = ''you.com''\<rparr>)))"

definition you_search :: "string \<Rightarrow> string \<Rightarrow> string option \<Rightarrow> pydict \<Rightarrow> world \<Rightarrow> (py_error + search_result list) \<times> world" where
  "you_search api_key query specific_function kwargs w =
     (if specific_function = Some ''get_news'' then get_news api_key query kwargs w
      else
        (let params = dict_merge [(''query'', JStr query)] kwargs
         in case call_upstream (HttpxGet (BASE_URL @ ''/search?query='' @ query) params (you_headers api_key)) w of
              (Inl e, w') \<Rightarrow> (Inl e, w')
            | (Inr data, w') \<Rightarrow> (map_results data ''hits'' hit_result, w')))"

text \<open>The polymorphic call \<^verbatim>\<open>provider_instance.search(query, specific_function=..., **kwargs)\<close>.\<close>

fun adapter_search :: "adapter \<Rightarrow> string \<Rightarrow> string option \<Rightarrow> pydict \<Rightarrow> world \<Rightarrow> (py_error + search_result list) \<times> world" where
  "adapter_search (SerpSearchProvider k) q f kw w = serp_search k q f kw w"
| "adapter_search (TavilySearchProvider k) q f kw w = tavily_search k q f kw w"
| "adapter_search (YouSearchProvider k) q f kw w = you_search k q f kw w"

section \<open>search\_provider.py: the registry\<close>

text \<open>\<^verbatim>\<open>str.replace(old, new)\<close>: every non-overlapping occurrence, from the left.\<close>

function str_replace :: "string \<Rightarrow> string \<Rightarrow> string \<Rightarrow> string" where
  "str_replace old new [] = (if old = [] then new else [])"
| "str_replace old new (c # cs) =
     (if old = [] then new @ c # str_replace old new cs
      else if take (length old) (c # cs) = old
        then new @ str_replace old new (drop (length old) (c # cs))
        else c # str_replace old new cs)"
  by pat_completeness auto
termination
  by (relation "measure (\<lambda>(old, new, s). length s)") auto

text \<open>\<^verbatim>\<open>str.rfind(c)\<close>, with \<open>None\<close> for \<^verbatim>\<open>-1\<close>, and \<^verbatim>\<open>PurePath.stem\<close> of a file name.\<close>

definition rfind :: "char \<Rightarrow> string \<Rightarrow> nat option" where
  "rfind c s =
     (if c \<in> set s then Some (length s - 1 - length (takeWhile (\<lambda>x. x \<noteq> c) (rev s))) else None)"

definition stem :: "string \<Rightarrow> string" where
  "stem name =
     (case rfind (CHR ''.'') name of
        None \<Rightarrow> name
      | Some i \<Rightarrow> (if 0 < i \<and> i < length name - 1 then take i name else name))"

definition endswith :: "string \<Rightarrow> string \<Rightarrow> bool" where
  "endswith s suf = (length suf \<le> length s \<and> drop (length s - length suf) s = suf)"

text \<open>
  \<^verbatim>\<open>Path(PROVIDERS_DIR).glob("*_search_provider.py")\<close> over the names in the directory, and
  the set comprehension over the files found.
\<close>

definition glob_provider_files :: "string list \<Rightarrow> string list" where
  "glob_provider_files names = filter (\<lambda>n. endswith n ''_search_provider.py'') names"

definition scan_providers :: "string list \<Rightarrow> string set" where
  "scan_providers names =
     set (map (\<lambda>file. str_replace ''_search_provider'' [] (stem file)) (glob_provider_files names))"

text \<open>
  \<^verbatim>\<open>get_supported_providers\<close> under \<^verbatim>\<open>functools.cache\<close>: the body runs when the memo table
  is empty, and its result is stored.
\<close>

definition get_supported_providers :: "world \<Rightarrow> string set \<times> world" where
  "get_supported_providers w =
     (case supported_cache w of
        Some s \<Rightarrow> (s, w)
      | None \<Rightarrow> (let s = scan_providers (providers_dir w) in (s, w\<lparr>supported_cache := Some s\<rparr>)))"

text \<open>\<^verbatim>\<open>str.capitalize\<close> on ASCII letters: first character upper case, the rest lower case.\<close>

definition lower_letters :: string where
  "lower_letters = ''abcdefghijklmnopqrstuvwxyz''"

definition upper_letters :: string where
  "upper_letters = ''ABCDEFGHIJKLMNOPQRSTUVWXYZ''"

definition to_upper :: "char \<Rightarrow> char" where
  "to_upper c = (case map_of (zip lower_letters upper_letters) c of None \<Rightarrow> c | Some u \<Rightarrow> u)"

definition to_lower :: "char \<Rightarrow> char" where
  "to_lower c = (case map_of (zip upper_letters lower_letters) c of None \<Rightarrow> c | Some l \<Rightarrow> l)"

fun capitalize :: "string \<Rightarrow> string" where
  "capitalize [] = []"
| "capitalize (c # cs) = to_upper c # map to_lower cs"

text \<open>
  The adapter modules of the package and the classes they define; \<^verbatim>\<open>importlib.import_module\<close>
  of any other path raises \<^verbatim>\<open>ImportError\<close>.
\<close>

datatype provider_class = SerpClass | TavilyClass | YouClass

definition package_modules :: "(string \<times> (string \<times> provider_class) list) list" where
  "package_modules =
     [(''aisuite.search_providers.serp_search_provider'', [(''SerpSearchProvider'', SerpClass)]),
      (''aisuite.search_providers.tavily_search_provider'', [(''TavilySearchProvider'', TavilyClass)]),
      (''aisuite.search_providers.you_search_provider'', [(''YouSearchProvider'', YouClass)])]"

fun class_init :: "provider_class \<Rightarrow> (string \<Rightarrow> string option) \<Rightarrow> string option \<Rightarrow> py_error + adapter" where
  "class_init SerpClass = SerpSearchProvider_init"
| "class_init TavilyClass = TavilySearchProvider_init"
| "class_init YouClass = YouSearchProvider_init"

text \<open>
  \<^verbatim>\<open>provider_class(**config)\<close>: every constructor has the one parameter \<^verbatim>\<open>api_key\<close>, so any
  other key of \<open>config\<close> is an unexpected keyword argument.
\<close>

definition instantiate :: "provider_class \<Rightarrow> string \<Rightarrow> config \<Rightarrow> world \<Rightarrow> (py_error + adapter) \<times> world" where
  "instantiate cls name config w =
     (let w' = emit (Instantiate name) w
      in if filter (\<lambda>k. k \<noteq> ''api_key'') (map fst config) \<noteq> [] then (Inl TypeError, w')
         else (class_init cls (environ w) (map_of config ''api_key''), w'))"

definition create_provider :: "string \<Rightarrow> config \<Rightarrow> world \<Rightarrow> (py_error + adapter) \<times> world" where
  "create_provider provider_key config w =
     (let provider_class_name = capitalize provider_key @ ''SearchProvider'';
          provider_module_name = provider_key @ ''_search_provider'';
          module_path = ''aisuite.search_providers.'' @ provider_module_name
      in case map_of package_modules module_path of
           None \<Rightarrow> (Inl (ImportError module_path), w)
         | Some module \<Rightarrow>
             (case map_of module provider_class_name of
                None \<Rightarrow> (Inl AttributeError, w)
              | Some cls \<Rightarrow> instantiate cls provider_class_name config w))"

section \<open>search\_client.py: the facade\<close>

text \<open>
  A client owns its \<^verbatim>\<open>providers\<close> dict and refers to its \<^verbatim>\<open>provider_configs\<close> dict by
  address: \<^verbatim>\<open>__init__\<close> stores the argument object itself, and the default argument is the
  one dict at address \<open>0\<close>.
\<close>

record search_client =
  providers :: "(string \<times> adapter) list"
  provider_configs :: nat

definition default_configs :: nat where
  "default_configs = 0"

definition validate_provider_key :: "string \<Rightarrow> world \<Rightarrow> (py_error + unit) \<times> world" where
  "validate_provider_key provider_key w =
     (case get_supported_providers w of
        (supported_providers, w') \<Rightarrow>
          (if provider_key \<notin> supported_providers
           then (Inl (InvalidProviderKey provider_key supported_providers), w')
           else (Inr (), w')))"

text \<open>The loop of \<^verbatim>\<open>_initialize_providers\<close> over the items of the configuration dict.\<close>

fun initialize_loop :: "(string \<times> config) list \<Rightarrow> search_client \<Rightarrow> world \<Rightarrow> (py_error + unit) \<times> search_client \<times> world" where
  "initialize_loop [] c w = (Inr (), c, w)"
| "initialize_loop ((provider_key, config) # rest) c w =
     (case validate_provider_key provider_key w of
        (Inl e, w1) \<Rightarrow> (Inl e, c, w1)
      | (Inr _, w1) \<Rightarrow>
          (case create_provider provider_key config w1 of
             (Inl e, w2) \<Rightarrow> (Inl e, c, w2)
           | (Inr a, w2) \<Rightarrow>
               initialize_loop rest (c\<lparr>providers := AList.update provider_key a (providers c)\<rparr>) w2))"

definition initialize_providers :: "search_client \<Rightarrow> world \<Rightarrow> (py_error + unit) \<times> search_client \<times> world" where
  "initialize_providers c w = initialize_loop (dict_heap w (provider_configs c)) c w"

text \<open>
  \<^verbatim>\<open>SearchClient(provider_configs)\<close>: the argument is the address of the caller's dict, or
  \<open>None\<close> when it is left out. When \<^verbatim>\<open>__init__\<close> raises, no client is returned.
\<close>

definition SearchClient_init :: "nat option \<Rightarrow> world \<Rightarrow> (py_error + search_client) \<times> world" where
  "SearchClient_init arg w =
     (let c = \<lparr>providers = [],
               provider_configs = (case arg of None \<Rightarrow> default_configs | Some a \<Rightarrow> a)\<rparr>
      in case initialize_providers c w of
           (Inl e, c', w') \<Rightarrow> (Inl e, w')
         | (Inr _, c', w') \<Rightarrow> (Inr c', w'))"

definition configure :: "search_client \<Rightarrow> (string \<times> config) list option \<Rightarrow> world \<Rightarrow> (py_error + unit) \<times> search_client \<times> world" where
  "configure c arg w =
     (case arg of
        None \<Rightarrow> (Inr (), c, w)
      | Some new_configs \<Rightarrow>
          (let a = provider_configs c;
               w1 = w\<lparr>dict_heap := (dict_heap w)(a := dict_merge (dict_heap w a) new_configs)\<rparr>
           in initialize_providers c w1))"

text \<open>
  \<^verbatim>\<open>SearchClient.search(provider, query, **kwargs)\<close>. \<open>kwargs\<close> holds the keyword arguments
  that Python did not bind to \<^verbatim>\<open>provider\<close> or \<^verbatim>\<open>query\<close>; a key \<^verbatim>\<open>specific_function\<close> in it
  collides with the explicit keyword of the adapter call.
\<close>

definition SearchClient_search :: "search_client \<Rightarrow> string \<Rightarrow> string \<Rightarrow> pydict \<Rightarrow> world \<Rightarrow> (py_error + search_result list) \<times> search_client \<times> world" where
  "SearchClient_search c provider query kwargs w =
     (case partition_str (CHR '':'') provider of
        (provider_key, _, specific_function) \<Rightarrow>
          (case validate_provider_key provider_key w of
             (Inl e, w1) \<Rightarrow> (Inl e, c, w1)
           | (Inr _, w1) \<Rightarrow>
               (case (if map_of (providers c) provider_key = None
                      then (let config = dict_get (dict_heap w1 (provider_configs c)) provider_key []
                            in case create_provider provider_key config w1 of
                                 (Inl e, w2) \<Rightarrow> (Inl e, c, w2)
                               | (Inr a, w2) \<Rightarrow>
                                   (Inr (), c\<lparr>providers := AList.update provider_key a (providers c)\<rparr>, w2))
                      else (Inr (), c, w1)) of
                  (Inl e, c2, w2) \<Rightarrow> (Inl e, c2, w2)
                | (Inr _, c2, w2) \<Rightarrow>
                    (case map_of (providers c2) provider_key of
                       None \<Rightarrow>
                         (Inl (ValueError (''Could not load provider for '' @ [CHR 0x27] @ provider_key
                                            @ [CHR 0x27] @ ''.'')), c2, w2)
                     | Some provider_instance \<Rightarrow>
                         (if ''specific_function'' \<in> set (map fst kwargs) then (Inl TypeError, c2, w2)
                          else (case adapter_search provider_instance query (Some specific_function) kwargs w2 of
                                  (r, w3) \<Rightarrow> (r, c2, w3)))))))"

section \<open>Test doubles\<close>

text \<open>
  The directory as the package ships it, and a world whose transport answers every request
  with one fixed response: no environment variable is set, nothing is cached, every
  configuration dict is empty.
\<close>

definition repo_providers_dir :: "string list" where
  "repo_providers_dir =
     [''serp_search_provider.py'', ''tavily_search_provider.py'', ''you_search_provider.py'']"

definition mock_world :: "json \<Rightarrow> world" where
  "mock_world response =
     \<lparr>environ = (\<lambda>name. None), providers_dir = repo_providers_dir, supported_cache = None,
      dict_heap = (\<lambda>a. []), upstream = (\<lambda>r. Inr response), py_repr = (\<lambda>v. ''<repr>''),
      trace = []\<rparr>"

text \<open>The same world, in which the caller holds one configuration dict, at address \<open>1\<close>.\<close>

definition configured_world :: "(string \<times> config) list \<Rightarrow> json \<Rightarrow> world" where
  "configured_world configs response =
     (mock_world response)\<lparr>dict_heap := (\<lambda>a. if a = 1 then configs else [])\<rparr>"

section \<open>Auxiliary facts\<close>

lemmas adapter_defs =
  bind_err_def dict_get_def dict_index_def py_join_def dict_merge_def emit_def call_upstream_def
  map_results_def video_result_def organic_result_def serp_params_def youtube_search_def
  serp_search_def tavily_result_def tavily_search_def BASE_URL_def you_headers_def news_result_def
  get_news_def hit_content_def hit_result_def you_search_def mock_world_def

subsection \<open>Comprehensions and dicts\<close>

lemma traverse_all:
  "(\<And>x. x \<in> set xs \<Longrightarrow> f x = Inr (g x)) \<Longrightarrow> traverse f xs = Inr (map g xs)"
  by (induction xs) auto

lemma traverse_list_all:
  "traverse f xs = Inr ys \<Longrightarrow> (\<And>x y. f x = Inr y \<Longrightarrow> P y) \<Longrightarrow> list_all P ys"
  by (induction xs arbitrary: ys) (auto split: sum.splits)

lemma map_of_dict_merge_notin:
  "k \<notin> fst ` set kw \<Longrightarrow> map_of (dict_merge base kw) k = map_of base k"
  unfolding dict_merge_def
  by (induction kw arbitrary: base) (auto simp: update_conv')

lemma map_results_absent:
  "map_of d key = None \<Longrightarrow> map_results (JObj d) key body = Inr []"
  by (simp add: map_results_def bind_err_def dict_get_def)

lemma map_results_arr:
  "map_of d key = Some (JArr hs) \<Longrightarrow> map_results (JObj d) key body = traverse body hs"
  by (simp add: map_results_def bind_err_def dict_get_def)

lemma map_results_list_all:
  "map_results v key body = Inr ys \<Longrightarrow> (\<And>x y. body x = Inr y \<Longrightarrow> P y) \<Longrightarrow> list_all P ys"
  unfolding map_results_def bind_err_def
  by (auto split: sum.splits intro: traverse_list_all)

lemma news_result_obj:
  "news_result (JObj d) =
     Inr \<lparr>title = dict_get d ''title'' (JStr []), url = dict_get d ''url'' (JStr []),
          content = dict_get d ''description'' (JStr []), source = ''you.com:news''\<rparr>"
  by (simp add: news_result_def bind_err_def)

lemma news_result_source: "news_result x = Inr y \<Longrightarrow> source y = ''you.com:news''"
  by (auto simp: news_result_def bind_err_def split: sum.splits)

lemma get_news_world:
  "snd (get_news k q kw w) =
     emit (Call (HttpxGet (BASE_URL @ ''/news?q='' @ q) (dict_merge [(''q'', JStr q)] kw) (you_headers k))) w"
  by (simp add: get_news_def call_upstream_def Let_def split: sum.splits)

lemma get_news_results:
  assumes "upstream w (HttpxGet (BASE_URL @ ''/news?q='' @ q) (dict_merge [(''q'', JStr q)] kw) (you_headers k))
             = Inr (JObj data)"
    and "map_of data ''news'' = Some (JObj news)"
    and "map_of news ''results'' = Some (JArr (map JObj ds))"
  shows "fst (get_news k q kw w) =
           Inr (map (\<lambda>d. \<lparr>title = dict_get d ''title'' (JStr []), url = dict_get d ''url'' (JStr []),
                            content = dict_get d ''description'' (JStr []), source = ''you.com:news''\<rparr>) ds)"
proof -
  have "map_results (JObj news) ''results'' news_result = traverse news_result (map JObj ds)"
    using assms(3) by (rule map_results_arr)
  also have "\<dots> = Inr (map (\<lambda>x. case x of JObj d \<Rightarrow> \<lparr>title = dict_get d ''title'' (JStr []), url = dict_get d ''url'' (JStr []),
                            content = dict_get d ''description'' (JStr []), source = ''you.com:news''\<rparr>) (map JObj ds))"
    by (rule traverse_all) (auto simp: news_result_obj)
  finally show ?thesis
    using assms(1,2)
    by (simp add: get_news_def call_upstream_def bind_err_def dict_get_def comp_def)
qed

lemma get_news_source:
  "fst (get_news k q kw w) = Inr rs \<Longrightarrow> list_all (\<lambda>r. source r = ''you.com:news'') rs"
  unfolding get_news_def call_upstream_def Let_def bind_err_def
  by (auto split: sum.splits intro: map_results_list_all news_result_source)

lemma you_search_default_world:
  "f \<noteq> Some ''get_news'' \<Longrightarrow> snd (you_search k q f kw w) =
     emit (Call (HttpxGet (BASE_URL @ ''/search?query='' @ q) (dict_merge [(''query'', JStr q)] kw) (you_headers k))) w"
  by (simp add: you_search_def call_upstream_def Let_def split: sum.splits)

lemma you_search_default_hits:
  "f \<noteq> Some ''get_news'' \<Longrightarrow>
   upstream w (HttpxGet (BASE_URL @ ''/search?query='' @ q) (dict_merge [(''query'', JStr q)] kw) (you_headers k))
     = Inr (JObj data) \<Longrightarrow>
   map_of data ''hits'' = Some (JArr hs) \<Longrightarrow>
   fst (you_search k q f kw w) = traverse hit_result hs"
  by (simp add: you_search_def call_upstream_def Let_def map_results_arr)

text \<open>
  C5. In the You.com adapter the token \<^verbatim>\<open>get_news\<close> selects the news endpoint, whose
  entries are read under \<^verbatim>\<open>news.results\<close> and tagged \<^verbatim>\<open>you.com:news\<close>. Any other token
  behaves exactly as the empty token: the request goes to the web-search endpoint with the
  query and the options only, and the \<^verbatim>\<open>hits\<close> array is mapped.
\<close>

theorem you_search_routing:
  "snd (you_search k q (Some ''get_news'') kw w) =
     emit (Call (HttpxGet (BASE_URL @ ''/news?q='' @ q) (dict_merge [(''q'', JStr q)] kw) (you_headers k))) w
   \<and> (upstream w (HttpxGet (BASE_URL @ ''/news?q='' @ q) (dict_merge [(''q'', JStr q)] kw) (you_headers k))
          = Inr (JObj data) \<longrightarrow>
        map_of data ''news'' = Some (JObj news) \<longrightarrow>
        map_of news ''results'' = Some (JArr (map JObj ds)) \<longrightarrow>
        fst (you_search k q (Some ''get_news'') kw w) =
          Inr (map (\<lambda>d. \<lparr>title = dict_get d ''title'' (JStr []), url = dict_get d ''url'' (JStr []),
                           content = dict_get d ''description'' (JStr []), source = ''you.com:news''\<rparr>) ds))
   \<and> (fst (you_search k q (Some ''get_news'') kw w) = Inr rs \<longrightarrow>
        list_all (\<lambda>r. source r = ''you.com:news'') rs)
   \<and> (f \<noteq> ''get_news'' \<longrightarrow>
        you_search k q (Some f) kw w = you_search k q (Some []) kw w
        \<and> snd (you_search k q (Some f) kw w) =
            emit (Call (HttpxGet (BASE_URL @ ''/search?query='' @ q) (dict_merge [(''query'', JStr q)] kw)
                          (you_headers k))) w
        \<and> (upstream w (HttpxGet (BASE_URL @ ''/search?query='' @ q) (dict_merge [(''query'', JStr q)] kw)
                          (you_headers k)) = Inr (JObj data') \<longrightarrow>
             map_of data' ''hits'' = Some (JArr hs) \<longrightarrow>
             fst (you_search k q (Some f) kw w) = traverse hit_result hs))"
proof -
  have news: "you_search k q (Some ''get_news'') kw w = get_news k q kw w"
    by (simp add: you_search_def)
  have other: "you_search k q (Some f) kw w = you_search k q (Some []) kw w" if "f \<noteq> ''get_news''"
    using that by (simp add: you_search_def)
  show ?thesis
    unfolding news
    using get_news_world [of k q kw w] get_news_results [of w q kw k data news ds]
      get_news_source [of k q kw w rs] other
      you_search_default_world [of "Some f" k q kw w]
      you_search_default_hits [of "Some f" w q kw k data' hs]
    by simp
qed

theorem you_search_routing_witness:
  "fst (you_search ''key'' ''x'' (Some ''get_news'') []
          (mock_world (JObj [(''news'', JObj [(''results'', JArr [JObj [(''title'', JStr ''T'')]])]),
                             (''hits'', JArr [JObj [(''url'', JStr ''U'')]])]))) =
     Inr [\<lparr>title = JStr ''T'', url = JStr [], content = JStr [], source = ''you.com:news''\<rparr>]
   \<and> ''web'' \<noteq> ''get_news''
   \<and> fst (you_search ''key'' ''x'' (Some ''web'') []
          (mock_world (JObj [(''news'', JObj [(''results'', JArr [JObj [(''title'', JStr ''T'')]])]),
                             (''hits'', JArr [JObj [(''url'', JStr ''U'')]])]))) =
     Inr [\<lparr>title = JStr [], url = JStr ''U'', content = JStr [], source = ''you.com''\<rparr>]"
  using you_search_routing [of "''key''" "''x''" "[]"
      "mock_world (JObj [(''news'', JObj [(''results'', JArr [JObj [(''title'', JStr ''T'')]])]),
                         (''hits'', JArr [JObj [(''url'', JStr ''U'')]])])"
      "[(''news'', JObj [(''results'', JArr [JObj [(''title'', JStr ''T'')]])]),
        (''hits'', JArr [JObj [(''url'', JStr ''U'')]])]"
      "[(''results'', JArr [JObj [(''title'', JStr ''T'')]])]"
      "[[(''title'', JStr ''T'')]]" "[]" "''web''"
      "[(''news'', JObj [(''results'', JArr [JObj [(''title'', JStr ''T'')]])]),
        (''hits'', JArr [JObj [(''url'', JStr ''U'')]])]"
      "[JObj [(''url'', JStr ''U'')]]"]
  by (simp add: adapter_defs)


subsection \<open>The engine parameter of the serp adapter\<close>

lemma map_of_dict_merge_distinct:
  "distinct (map fst kw) \<Longrightarrow> map_of (dict_merge base kw) = map_of base ++ map_of kw"
  unfolding dict_merge_def
proof (induction kw arbitrary: base)
  case Nil
  then show ?case by simp
next
  case (Cons x kw)
  then have "fst x \<notin> dom (map_of kw)"
    by (simp add: dom_map_of_conv_image_fst)
  then show ?case
    using Cons by (cases x) (auto simp: update_conv' fun_eq_iff map_add_def domIff split: option.splits)
qed

lemma serp_params_engine_override:
  "f \<noteq> [] \<Longrightarrow> map_of (serp_params k q (Some f) kw) ''engine'' = Some (JStr f)"
  by (simp add: serp_params_def update_conv')

lemma serp_params_engine_default:
  "sf = None \<or> sf = Some [] \<Longrightarrow> ''engine'' \<notin> fst ` set kw \<Longrightarrow>
   map_of (serp_params k q sf kw) ''engine'' = Some (JStr ''google'')"
  by (auto simp: serp_params_def map_of_dict_merge_notin)

lemma serp_params_engine_kwargs:
  "sf = None \<or> sf = Some [] \<Longrightarrow> distinct (map fst kw) \<Longrightarrow> map_of kw ''engine'' = Some v \<Longrightarrow>
   map_of (serp_params k q sf kw) ''engine'' = Some v"
  by (auto simp: serp_params_def map_of_dict_merge_distinct map_add_def)

lemma serp_search_world:
  "sf \<noteq> Some ''youtube'' \<Longrightarrow>
   snd (serp_search k q sf kw w) = emit (Call (GoogleSearch (serp_params k q sf kw))) w"
  by (simp add: serp_search_def call_upstream_def Let_def split: sum.splits)

text \<open>
  C4, as stated, fails: the literal \<^verbatim>\<open>"engine": "google"\<close> is written before \<^verbatim>\<open>**kwargs\<close> is
  spread, so with an empty token an \<^verbatim>\<open>engine\<close> option of the caller reaches the upstream
  request in place of \<^verbatim>\<open>google\<close>.
\<close>

theorem serp_engine_kwargs_counterexample:
  "trace (snd (serp_search ''k'' ''cats'' (Some []) [(''engine'', JStr ''bing'')] (mock_world (JObj [])))) =
     [Call (GoogleSearch [(''q'', JStr ''cats''), (''api_key'', JStr ''k''), (''engine'', JStr ''bing'')])]"
  by (simp add: adapter_defs)

text \<open>
  C4, amended. A token that is neither empty nor \<^verbatim>\<open>youtube\<close> is the \<^verbatim>\<open>engine\<close> parameter of the
  request, whatever the options hold, and the request is always issued. With an empty or
  absent token the \<^verbatim>\<open>engine\<close> parameter is \<^verbatim>\<open>google\<close> when the options have no \<^verbatim>\<open>engine\<close>
  entry, and the options' own entry otherwise.
\<close>

theorem serp_engine_parameter:
  "(f \<noteq> [] \<longrightarrow> f \<noteq> ''youtube'' \<longrightarrow>
      snd (serp_search k q (Some f) kw w) = emit (Call (GoogleSearch (serp_params k q (Some f) kw))) w
      \<and> map_of (serp_params k q (Some f) kw) ''engine'' = Some (JStr f))
   \<and> (sf = None \<or> sf = Some [] \<longrightarrow>
      snd (serp_search k q sf kw w) = emit (Call (GoogleSearch (serp_params k q sf kw))) w
      \<and> (''engine'' \<notin> fst ` set kw \<longrightarrow>
           map_of (serp_params k q sf kw) ''engine'' = Some (JStr ''google''))
      \<and> (distinct (map fst kw) \<longrightarrow> map_of kw ''engine'' = Some v \<longrightarrow>
           map_of (serp_params k q sf kw) ''engine'' = Some v))"
proof -
  have "sf \<noteq> Some ''youtube''" if "sf = None \<or> sf = Some []"
    using that by auto
  then show ?thesis
    using serp_search_world [of "Some f" k q kw w] serp_search_world [of sf k q kw w]
      serp_params_engine_override [of f k q kw] serp_params_engine_default [of sf kw k q]
      serp_params_engine_kwargs [of sf kw v k q]
    by auto
qed

theorem serp_engine_parameter_witness:
  "''bing'' \<noteq> [] \<and> ''bing'' \<noteq> ''youtube''
   \<and> trace (snd (serp_search ''k'' ''cats'' (Some ''bing'') [(''num'', JNum 10)] (mock_world (JObj [])))) =
       [Call (GoogleSearch [(''q'', JStr ''cats''), (''api_key'', JStr ''k''), (''engine'', JStr ''bing''),
                            (''num'', JNum 10)])]
   \<and> ''engine'' \<notin> fst ` set [(''num'', JNum 10)]
   \<and> map_of (serp_params ''k'' ''cats'' (Some []) [(''num'', JNum 10)]) ''engine'' = Some (JStr ''google'')
   \<and> distinct (map fst [(''engine'', JStr ''baidu'')])
   \<and> map_of (serp_params ''k'' ''cats'' None [(''engine'', JStr ''baidu'')]) ''engine'' = Some (JStr ''baidu'')"
  using serp_engine_parameter [of "''bing''" "''k''" "''cats''" "[(''num'', JNum 10)]" "mock_world (JObj [])"
      "Some []" "JStr ''google''"]
    serp_engine_parameter [of "''bing''" "''k''" "''cats''" "[(''engine'', JStr ''baidu'')]" "mock_world (JObj [])"
      None "JStr ''baidu''"]
  by (simp add: adapter_defs)


subsection \<open>The video path of the serp adapter\<close>

lemma video_result_obj:
  assumes "case map_of d ''channel'' of None \<Rightarrow> True | Some v \<Rightarrow> (case v of JObj ch \<Rightarrow> True | _ \<Rightarrow> False)"
  shows "video_result repr (JObj d) =
     Inr \<lparr>title = dict_get d ''title'' (JStr []), url = dict_get d ''link'' (JStr []),
          content = JStr (''Duration: '' @ py_str repr (dict_get d ''duration'' (JStr ''N/A''))
                        @ '' | Views: '' @ py_str repr (dict_get d ''views'' (JStr ''N/A''))
                        @ '' | Channel: '' @ py_str repr
                             (case map_of d ''channel'' of
                                Some (JObj ch) \<Rightarrow> dict_get ch ''name'' (JStr ''N/A'')
                              | _ \<Rightarrow> JStr ''N/A'')
                        @ '' | Description: '' @ py_str repr (dict_get d ''description'' (JStr []))),
          source = ''serpapi:youtube''\<rparr>"
  using assms
  by (auto simp: video_result_def bind_err_def dict_get_def split: option.splits json.splits)

lemma video_result_source: "video_result repr x = Inr y \<Longrightarrow> source y = ''serpapi:youtube''"
  by (auto simp: video_result_def bind_err_def split: sum.splits)

lemma youtube_search_world:
  "snd (youtube_search k q kw w) =
     emit (Call (GoogleSearch (dict_merge [(''q'', JStr q), (''api_key'', JStr k), (''engine'', JStr ''youtube'')] kw))) w"
  by (simp add: youtube_search_def call_upstream_def Let_def split: sum.splits)

lemma youtube_search_source:
  "fst (youtube_search k q kw w) = Inr rs \<Longrightarrow> list_all (\<lambda>r. source r = ''serpapi:youtube'') rs"
  unfolding youtube_search_def call_upstream_def Let_def
  by (auto split: sum.splits intro: map_results_list_all video_result_source)

lemma youtube_search_results:
  assumes "upstream w (GoogleSearch (dict_merge [(''q'', JStr q), (''api_key'', JStr k), (''engine'', JStr ''youtube'')] kw))
             = Inr (JObj data)"
    and "map_of data ''video_results'' = Some (JArr (map JObj ds))"
    and "list_all (\<lambda>d. case map_of d ''channel'' of None \<Rightarrow> True
                        | Some v \<Rightarrow> (case v of JObj ch \<Rightarrow> True | _ \<Rightarrow> False)) ds"
  shows "fst (youtube_search k q kw w) =
     Inr (map (\<lambda>d. \<lparr>title = dict_get d ''title'' (JStr []), url = dict_get d ''link'' (JStr []),
          content = JStr (''Duration: '' @ py_str (py_repr w) (dict_get d ''duration'' (JStr ''N/A''))
                        @ '' | Views: '' @ py_str (py_repr w) (dict_get d ''views'' (JStr ''N/A''))
                        @ '' | Channel: '' @ py_str (py_repr w)
                             (case map_of d ''channel'' of
                                Some (JObj ch) \<Rightarrow> dict_get ch ''name'' (JStr ''N/A'')
                              | _ \<Rightarrow> JStr ''N/A'')
                        @ '' | Description: '' @ py_str (py_repr w) (dict_get d ''description'' (JStr []))),
          source = ''serpapi:youtube''\<rparr>) ds)"
    (is "_ = Inr (map ?g ds)")
proof -
  have "traverse (video_result (py_repr w)) (map JObj ds) =
          Inr (map (\<lambda>x. case x of JObj d \<Rightarrow> ?g d) (map JObj ds))"
    using assms(3) by (intro traverse_all) (auto simp: list_all_iff video_result_obj)
  then show ?thesis
    using assms(1,2)
    by (simp add: youtube_search_def call_upstream_def map_results_arr comp_def)
qed

text \<open>
  C7. With the token \<^verbatim>\<open>youtube\<close> the serp adapter maps the \<^verbatim>\<open>video_results\<close> array and
  nothing else of the response: the content of every result is the one string built from
  the duration, the views, the channel name and the description of the hit, and the source
  is \<^verbatim>\<open>serpapi:youtube\<close>.
\<close>

theorem youtube_search_mapping:
  "snd (serp_search k q (Some ''youtube'') kw w) =
     emit (Call (GoogleSearch (dict_merge [(''q'', JStr q), (''api_key'', JStr k), (''engine'', JStr ''youtube'')] kw))) w
   \<and> (upstream w (GoogleSearch (dict_merge [(''q'', JStr q), (''api_key'', JStr k), (''engine'', JStr ''youtube'')] kw))
         = Inr (JObj data) \<longrightarrow>
       map_of data ''video_results'' = Some (JArr (map JObj ds)) \<longrightarrow>
       list_all (\<lambda>d. case map_of d ''channel'' of None \<Rightarrow> True
                      | Some v \<Rightarrow> (case v of JObj ch \<Rightarrow> True | _ \<Rightarrow> False)) ds \<longrightarrow>
       fst (serp_search k q (Some ''youtube'') kw w) =
         Inr (map (\<lambda>d. \<lparr>title = dict_get d ''title'' (JStr []), url = dict_get d ''link'' (JStr []),
              content = JStr (''Duration: '' @ py_str (py_repr w) (dict_get d ''duration'' (JStr ''N/A''))
                            @ '' | Views: '' @ py_str (py_repr w) (dict_get d ''views'' (JStr ''N/A''))
                            @ '' | Channel: '' @ py_str (py_repr w)
                                 (case map_of d ''channel'' of
                                    Some (JObj ch) \<Rightarrow> dict_get ch ''name'' (JStr ''N/A'')
                                  | _ \<Rightarrow> JStr ''N/A'')
                            @ '' | Description: '' @ py_str (py_repr w) (dict_get d ''description'' (JStr []))),
              source = ''serpapi:youtube''\<rparr>) ds))
   \<and> (fst (serp_search k q (Some ''youtube'') kw w) = Inr rs \<longrightarrow>
       list_all (\<lambda>r. source r = ''serpapi:youtube'') rs)"
proof -
  have "serp_search k q (Some ''youtube'') kw w = youtube_search k q kw w"
    by (simp add: serp_search_def)
  then show ?thesis
    using youtube_search_world [of k q kw w] youtube_search_results [of w q k kw data ds]
      youtube_search_source [of k q kw w rs]
    by simp
qed

theorem youtube_search_mapping_witness:
  "fst (serp_search ''k'' ''cats'' (Some ''youtube'') []
         (mock_world (JObj [(''organic_results'', JArr [JObj [(''title'', JStr ''web'')]]),
                            (''video_results'',
                               JArr [JObj [(''title'', JStr ''Cat video''), (''link'', JStr ''https://y/1''),
                                           (''duration'', JStr ''3:05''), (''views'', JNum 42),
                                           (''channel'', JObj [(''name'', JStr ''Cats'')]),
                                           (''description'', JStr ''A cat'')],
                                     JObj []])]))) =
     Inr [\<lparr>title = JStr ''Cat video'', url = JStr ''https://y/1'',
           content = JStr ''Duration: 3:05 | Views: <repr> | Channel: Cats | Description: A cat'',
           source = ''serpapi:youtube''\<rparr>,
          \<lparr>title = JStr [], url = JStr [],
           content = JStr ''Duration: N/A | Views: N/A | Channel: N/A | Description: '',
           source = ''serpapi:youtube''\<rparr>]"
  using youtube_search_mapping [of "''k''" "''cats''" "[]"
      "mock_world (JObj [(''organic_results'', JArr [JObj [(''title'', JStr ''web'')]]),
                            (''video_results'',
                               JArr [JObj [(''title'', JStr ''Cat video''), (''link'', JStr ''https://y/1''),
                                           (''duration'', JStr ''3:05''), (''views'', JNum 42),
                                           (''channel'', JObj [(''name'', JStr ''Cats'')]),
                                           (''description'', JStr ''A cat'')],
                                     JObj []])])"
      "[(''organic_results'', JArr [JObj [(''title'', JStr ''web'')]]),
                            (''video_results'',
                               JArr [JObj [(''title'', JStr ''Cat video''), (''link'', JStr ''https://y/1''),
                                           (''duration'', JStr ''3:05''), (''views'', JNum 42),
                                           (''channel'', JObj [(''name'', JStr ''Cats'')]),
                                           (''description'', JStr ''A cat'')],
                                     JObj []])]"
      "[[(''title'', JStr ''Cat video''), (''link'', JStr ''https://y/1''),
                                           (''duration'', JStr ''3:05''), (''views'', JNum 42),
                                           (''channel'', JObj [(''name'', JStr ''Cats'')]),
                                           (''description'', JStr ''A cat'')],
                                     []]" "[]"]
  by (simp add: adapter_defs)


subsection \<open>Normalization on the default paths\<close>

lemma dict_merge_keeps_key:
  "map_of base k \<noteq> None \<Longrightarrow> map_of (dict_merge base kw) k \<noteq> None"
  unfolding dict_merge_def
  by (induction kw arbitrary: base) (auto simp: update_conv')

lemma serp_params_has_engine: "\<exists>e. map_of (serp_params k q sf kw) ''engine'' = Some e"
proof -
  have "map_of (dict_merge [(''q'', JStr q), (''api_key'', JStr k), (''engine'', JStr ''google'')] kw) ''engine'' \<noteq> None"
    by (rule dict_merge_keeps_key) simp
  then show ?thesis
    by (cases sf) (auto simp: serp_params_def update_conv' Let_def)
qed

lemma organic_result_obj:
  "map_of params ''engine'' = Some e \<Longrightarrow>
   organic_result repr params (JObj d) =
     Inr \<lparr>title = dict_get d ''title'' (JStr []), url = dict_get d ''link'' (JStr []),
          content = dict_get d ''snippet'' (JStr []), source = ''serpapi:'' @ py_str repr e\<rparr>"
  by (simp add: organic_result_def bind_err_def dict_index_def)

lemma tavily_result_obj:
  "tavily_result (JObj d) =
     Inr \<lparr>title = dict_get d ''title'' (JStr []), url = dict_get d ''url'' (JStr []),
          content = dict_get d ''content'' (JStr []), source = ''tavily''\<rparr>"
  by (simp add: tavily_result_def bind_err_def)

lemma hit_result_obj:
  assumes "truthy (dict_get d ''description'' (JStr []))
           \<or> \<not> isl (py_join '' '' (dict_get d ''snippets'' (JArr [])))"
  shows "hit_result (JObj d) =
     Inr \<lparr>title = dict_get d ''title'' (JStr []), url = dict_get d ''url'' (JStr []),
          content = (if truthy (dict_get d ''description'' (JStr []))
                     then dict_get d ''description'' (JStr [])
                     else JStr (projr (py_join '' '' (dict_get d ''snippets'' (JArr []))))),
          source = ''you.com''\<rparr>"
  using assms
  by (cases "py_join '' '' (dict_get d ''snippets'' (JArr []))")
     (auto simp: hit_result_def hit_content_def bind_err_def)

lemma the_strs_map: "the_strs (map JStr ss) = Inr ss"
  by (induction ss) auto

lemma py_join_strs: "py_join sep (JArr (map JStr ss)) = Inr (intersperse_str sep ss)"
  by (simp add: py_join_def bind_err_def the_strs_map)

lemma map_results_objs:
  assumes "map_of data key = Some (JArr (map JObj ds))"
    and "\<And>d. d \<in> set ds \<Longrightarrow> body (JObj d) = Inr (g d)"
  shows "map_results (JObj data) key body = Inr (map g ds)"
proof -
  have "traverse body (map JObj ds) = Inr (map (\<lambda>x. case x of JObj d \<Rightarrow> g d) (map JObj ds))"
    using assms(2) by (intro traverse_all) auto
  then show ?thesis
    using assms(1) by (simp add: map_results_arr comp_def)
qed

lemma map_results_empty:
  "map_of data key = None \<or> map_of data key = Some (JArr []) \<Longrightarrow>
   map_results (JObj data) key body = Inr []"
  by (auto simp: map_results_absent map_results_arr)

lemma serp_search_fst:
  "sf \<noteq> Some ''youtube'' \<Longrightarrow> upstream w (GoogleSearch (serp_params k q sf kw)) = Inr resp \<Longrightarrow>
   fst (serp_search k q sf kw w) =
     map_results resp ''organic_results'' (organic_result (py_repr w) (serp_params k q sf kw))"
  by (simp add: serp_search_def call_upstream_def Let_def)

lemma tavily_search_fst:
  "upstream w (TavilySearch k q kw) = Inr resp \<Longrightarrow>
   fst (tavily_search k q sf kw w) = map_results resp ''results'' tavily_result"
  by (simp add: tavily_search_def call_upstream_def)

lemma you_search_fst:
  "sf \<noteq> Some ''get_news'' \<Longrightarrow>
   upstream w (HttpxGet (BASE_URL @ ''/search?query='' @ q) (dict_merge [(''query'', JStr q)] kw) (you_headers k))
     = Inr resp \<Longrightarrow>
   fst (you_search k q sf kw w) = map_results resp ''hits'' hit_result"
  by (simp add: you_search_def call_upstream_def Let_def)

lemma serp_normalization:
  assumes "sf \<noteq> Some ''youtube''"
    and "upstream w (GoogleSearch (serp_params k q sf kw)) = Inr (JObj data)"
  shows "(map_of data ''organic_results'' = None \<or> map_of data ''organic_results'' = Some (JArr []) \<longrightarrow>
            fst (serp_search k q sf kw w) = Inr [])
       \<and> (map_of data ''organic_results'' = Some (JArr (map JObj ds)) \<longrightarrow>
            (\<exists>e. map_of (serp_params k q sf kw) ''engine'' = Some e
               \<and> fst (serp_search k q sf kw w) =
                   Inr (map (\<lambda>d. \<lparr>title = dict_get d ''title'' (JStr []),
                                    url = dict_get d ''link'' (JStr []),
                                    content = dict_get d ''snippet'' (JStr []),
                                    source = ''serpapi:'' @ py_str (py_repr w) e\<rparr>) ds)))"
proof -
  obtain e where e: "map_of (serp_params k q sf kw) ''engine'' = Some e"
    using serp_params_has_engine by blast
  have "map_results (JObj data) ''organic_results'' (organic_result (py_repr w) (serp_params k q sf kw)) =
          Inr (map (\<lambda>d. \<lparr>title = dict_get d ''title'' (JStr []),
                                    url = dict_get d ''link'' (JStr []),
                                    content = dict_get d ''snippet'' (JStr []),
                                    source = ''serpapi:'' @ py_str (py_repr w) e\<rparr>) ds)"
    if "map_of data ''organic_results'' = Some (JArr (map JObj ds))"
    using that by (rule map_results_objs) (rule organic_result_obj [OF e])
  then show ?thesis
    unfolding serp_search_fst [OF assms]
    using e by (auto simp: map_results_empty)
qed

lemma tavily_normalization:
  assumes "upstream w (TavilySearch k q kw) = Inr (JObj data)"
  shows "(map_of data ''results'' = None \<or> map_of data ''results'' = Some (JArr []) \<longrightarrow>
            fst (tavily_search k q sf kw w) = Inr [])
       \<and> (map_of data ''results'' = Some (JArr (map JObj ds)) \<longrightarrow>
            fst (tavily_search k q sf kw w) =
              Inr (map (\<lambda>d. \<lparr>title = dict_get d ''title'' (JStr []),
                               url = dict_get d ''url'' (JStr []),
                               content = dict_get d ''content'' (JStr []),
                               source = ''tavily''\<rparr>) ds))"
  unfolding tavily_search_fst [OF assms]
  by (auto simp: map_results_empty intro!: map_results_objs tavily_result_obj)

lemma you_normalization:
  assumes "sf \<noteq> Some ''get_news''"
    and "upstream w (HttpxGet (BASE_URL @ ''/search?query='' @ q) (dict_merge [(''query'', JStr q)] kw)
                       (you_headers k)) = Inr (JObj data)"
  shows "(map_of data ''hits'' = None \<or> map_of data ''hits'' = Some (JArr []) \<longrightarrow>
            fst (you_search k q sf kw w) = Inr [])
       \<and> (map_of data ''hits'' = Some (JArr (map JObj ds)) \<longrightarrow>
          list_all (\<lambda>d. truthy (dict_get d ''description'' (JStr []))
                         \<or> \<not> isl (py_join '' '' (dict_get d ''snippets'' (JArr [])))) ds \<longrightarrow>
            fst (you_search k q sf kw w) =
              Inr (map (\<lambda>d. \<lparr>title = dict_get d ''title'' (JStr []),
                               url = dict_get d ''url'' (JStr []),
                               content = (if truthy (dict_get d ''description'' (JStr []))
                                          then dict_get d ''description'' (JStr [])
                                          else JStr (projr (py_join '' '' (dict_get d ''snippets'' (JArr []))))),
                               source = ''you.com''\<rparr>) ds))"
  unfolding you_search_fst [OF assms]
  by (auto simp: map_results_empty list_all_iff intro!: map_results_objs hit_result_obj)

lemma dict_get_is_str:
  "is_str dflt \<Longrightarrow> (\<And>v. map_of d key = Some v \<Longrightarrow> is_str v) \<Longrightarrow> is_str (dict_get d key dflt)"
  by (auto simp: dict_get_def split: option.splits)


text \<open>
  C1, as stated, fails in three ways. A You.com hit without \<^verbatim>\<open>description\<close> gets its content
  from the joined \<^verbatim>\<open>snippets\<close>, not the empty string; an element of the result array that is
  not an object makes the mapping raise; and a field that upstream sends as a number stays a
  number in the result.
\<close>

theorem normalization_counterexample:
  "fst (you_search ''key'' ''x'' None []
         (mock_world (JObj [(''hits'', JArr [JObj [(''title'', JStr ''T''), (''url'', JStr ''U''),
                                                   (''snippets'', JArr [JStr ''a'', JStr ''b''])]])]))) =
     Inr [\<lparr>title = JStr ''T'', url = JStr ''U'', content = JStr ''a b'', source = ''you.com''\<rparr>]
   \<and> fst (serp_search ''k'' ''x'' None []
         (mock_world (JObj [(''organic_results'', JArr [JStr ''not a hit''])]))) = Inl AttributeError
   \<and> fst (tavily_search ''k'' ''x'' None []
         (mock_world (JObj [(''results'', JArr [JObj [(''title'', JNum 7)]])]))) =
     Inr [\<lparr>title = JNum 7, url = JStr [], content = JStr [], source = ''tavily''\<rparr>]"
  by (simp add: adapter_defs)

text \<open>
  C1, amended. For a response that is a JSON object, on the default path of each of the three
  adapters: an absent or empty result array gives the empty list, and an array of JSON
  objects is mapped without raising, one result per hit, each of title, url and content
  being the upstream value under the mapped key, or the empty string when the key is
  absent (so a string whenever upstream sent a string). The one exception is the You.com
  content: when \<^verbatim>\<open>description\<close> is absent or false it is the \<^verbatim>\<open>snippets\<close> joined by spaces
  (joinable when \<^verbatim>\<open>snippets\<close> is absent or a list of strings), which is the empty string only
  when there are no snippets either.
\<close>

theorem normalization_total:
  "(sf \<noteq> Some ''youtube'' \<longrightarrow>
    upstream w (GoogleSearch (serp_params k q sf kw)) = Inr (JObj data) \<longrightarrow>
      (map_of data ''organic_results'' = None \<or> map_of data ''organic_results'' = Some (JArr []) \<longrightarrow>
         fst (serp_search k q sf kw w) = Inr [])
      \<and> (map_of data ''organic_results'' = Some (JArr (map JObj ds)) \<longrightarrow>
           (\<exists>e. map_of (serp_params k q sf kw) ''engine'' = Some e
              \<and> fst (serp_search k q sf kw w) =
                  Inr (map (\<lambda>d. \<lparr>title = dict_get d ''title'' (JStr []),
                                   url = dict_get d ''link'' (JStr []),
                                   content = dict_get d ''snippet'' (JStr []),
                                   source = ''serpapi:'' @ py_str (py_repr w) e\<rparr>) ds))))
   \<and> (upstream w (TavilySearch k q kw) = Inr (JObj data) \<longrightarrow>
      (map_of data ''results'' = None \<or> map_of data ''results'' = Some (JArr []) \<longrightarrow>
         fst (tavily_search k q sf kw w) = Inr [])
      \<and> (map_of data ''results'' = Some (JArr (map JObj ds)) \<longrightarrow>
           fst (tavily_search k q sf kw w) =
             Inr (map (\<lambda>d. \<lparr>title = dict_get d ''title'' (JStr []),
                              url = dict_get d ''url'' (JStr []),
                              content = dict_get d ''content'' (JStr []),
                              source = ''tavily''\<rparr>) ds)))
   \<and> (sf \<noteq> Some ''get_news'' \<longrightarrow>
      upstream w (HttpxGet (BASE_URL @ ''/search?query='' @ q) (dict_merge [(''query'', JStr q)] kw)
                    (you_headers k)) = Inr (JObj data) \<longrightarrow>
      (map_of data ''hits'' = None \<or> map_of data ''hits'' = Some (JArr []) \<longrightarrow>
         fst (you_search k q sf kw w) = Inr [])
      \<and> (map_of data ''hits'' = Some (JArr (map JObj ds)) \<longrightarrow>
         list_all (\<lambda>d. truthy (dict_get d ''description'' (JStr []))
                        \<or> \<not> isl (py_join '' '' (dict_get d ''snippets'' (JArr [])))) ds \<longrightarrow>
           fst (you_search k q sf kw w) =
             Inr (map (\<lambda>d. \<lparr>title = dict_get d ''title'' (JStr []),
                              url = dict_get d ''url'' (JStr []),
                              content = (if truthy (dict_get d ''description'' (JStr []))
                                         then dict_get d ''description'' (JStr [])
                                         else JStr (projr (py_join '' '' (dict_get d ''snippets'' (JArr []))))),
                              source = ''you.com''\<rparr>) ds)))
   \<and> (map_of hit key = None \<longrightarrow> dict_get hit key (JStr []) = JStr [])
   \<and> ((\<forall>v. map_of hit key = Some v \<longrightarrow> is_str v) \<longrightarrow> is_str (dict_get hit key (JStr [])))
   \<and> py_join '' '' (JArr (map JStr ss)) = Inr (intersperse_str '' '' ss)"
proof -
  have "map_of hit key = None \<longrightarrow> dict_get hit key (JStr []) = JStr []"
    by (simp add: dict_get_def)
  moreover have "(\<forall>v. map_of hit key = Some v \<longrightarrow> is_str v) \<longrightarrow> is_str (dict_get hit key (JStr []))"
    by (simp add: dict_get_is_str)
  ultimately show ?thesis
    using serp_normalization [of sf w k q kw data ds] tavily_normalization [of w k q kw data sf ds]
      you_normalization [of sf w q kw k data ds] py_join_strs [of "'' ''" ss]
    by blast
qed

theorem normalization_total_witness:
  "fst (serp_search ''k'' ''x'' None []
         (mock_world (JObj [(''organic_results'', JArr [JObj [(''title'', JStr ''T'')], JObj []]),
                            (''results'', JArr [JObj [(''url'', JStr ''U'')]]),
                            (''hits'', JArr [JObj [(''description'', JStr ''D'')], JObj []])]))) =
     Inr [\<lparr>title = JStr ''T'', url = JStr [], content = JStr [], source = ''serpapi:google''\<rparr>,
          \<lparr>title = JStr [], url = JStr [], content = JStr [], source = ''serpapi:google''\<rparr>]
   \<and> fst (tavily_search ''k'' ''x'' None []
         (mock_world (JObj [(''organic_results'', JArr [JObj [(''title'', JStr ''T'')], JObj []]),
                            (''results'', JArr [JObj [(''url'', JStr ''U'')]]),
                            (''hits'', JArr [JObj [(''description'', JStr ''D'')], JObj []])]))) =
     Inr [\<lparr>title = JStr [], url = JStr ''U'', content = JStr [], source = ''tavily''\<rparr>]
   \<and> fst (you_search ''k'' ''x'' None []
         (mock_world (JObj [(''organic_results'', JArr [JObj [(''title'', JStr ''T'')], JObj []]),
                            (''results'', JArr [JObj [(''url'', JStr ''U'')]]),
                            (''hits'', JArr [JObj [(''description'', JStr ''D'')], JObj []])]))) =
     Inr [\<lparr>title = JStr [], url = JStr [], content = JStr ''D'', source = ''you.com''\<rparr>,
          \<lparr>title = JStr [], url = JStr [], content = JStr [], source = ''you.com''\<rparr>]
   \<and> map_of [(''url'', JStr ''U'')] ''title'' = None
   \<and> is_str (dict_get [(''url'', JStr ''U'')] ''url'' (JStr []))"
  using
    normalization_total [where sf = None and k = "''k''" and q = "''x''" and kw = "[]"
      and w = "mock_world (JObj [(''organic_results'', JArr [JObj [(''title'', JStr ''T'')], JObj []]),
                            (''results'', JArr [JObj [(''url'', JStr ''U'')]]),
                            (''hits'', JArr [JObj [(''description'', JStr ''D'')], JObj []])])"
      and data = "[(''organic_results'', JArr [JObj [(''title'', JStr ''T'')], JObj []]),
                            (''results'', JArr [JObj [(''url'', JStr ''U'')]]),
                            (''hits'', JArr [JObj [(''description'', JStr ''D'')], JObj []])]"
      and ds = "[[(''title'', JStr ''T'')], []]" and hit = "[(''url'', JStr ''U'')]" and key = "''title''"
      and ss = "[]"]
    normalization_total [where sf = None and k = "''k''" and q = "''x''" and kw = "[]"
      and w = "mock_world (JObj [(''organic_results'', JArr [JObj [(''title'', JStr ''T'')], JObj []]),
                            (''results'', JArr [JObj [(''url'', JStr ''U'')]]),
                            (''hits'', JArr [JObj [(''description'', JStr ''D'')], JObj []])])"
      and data = "[(''organic_results'', JArr [JObj [(''title'', JStr ''T'')], JObj []]),
                            (''results'', JArr [JObj [(''url'', JStr ''U'')]]),
                            (''hits'', JArr [JObj [(''description'', JStr ''D'')], JObj []])]"
      and ds = "[[(''description'', JStr ''D'')], []]" and hit = "[(''url'', JStr ''U'')]" and key = "''url''"
      and ss = "[]"]
  by (simp add: adapter_defs)


lemmas registry_defs =
  or_getenv_def resolve_key_def SerpSearchProvider_init_def TavilySearchProvider_init_def
  YouSearchProvider_init_def rfind_def stem_def endswith_def glob_provider_files_def
  scan_providers_def get_supported_providers_def lower_letters_def upper_letters_def
  to_upper_def to_lower_def package_modules_def instantiate_def create_provider_def
  repo_providers_dir_def

lemmas client_defs =
  default_configs_def validate_provider_key_def initialize_providers_def SearchClient_init_def
  configure_def SearchClient_search_def

subsection \<open>The registry\<close>

lemma scan_repo_providers_dir: "scan_providers repo_providers_dir = {''serp'', ''tavily'', ''you''}"
  by (simp add: registry_defs) 

lemma get_supported_providers_first:
  "supported_cache w = None \<Longrightarrow> fst (get_supported_providers w) = scan_providers (providers_dir w)"
  by (simp add: get_supported_providers_def Let_def)

lemma get_supported_providers_snd:
  "snd (get_supported_providers w) = w\<lparr>supported_cache := Some (fst (get_supported_providers w))\<rparr>"
  by (simp add: get_supported_providers_def Let_def split: option.splits)

lemma get_supported_providers_memoized:
  "get_supported_providers ((snd (get_supported_providers w))\<lparr>providers_dir := names\<rparr>) =
     (fst (get_supported_providers w), (snd (get_supported_providers w))\<lparr>providers_dir := names\<rparr>)"
  by (simp add: get_supported_providers_def Let_def split: option.splits)

lemma get_supported_providers_again:
  "get_supported_providers (snd (get_supported_providers w)) =
     (fst (get_supported_providers w), snd (get_supported_providers w))"
  by (simp add: get_supported_providers_def Let_def split: option.splits)

lemma get_supported_providers_trace: "trace (snd (get_supported_providers w)) = trace w"
  by (simp add: get_supported_providers_snd)

text \<open>
  C8. The key of a provider file is computed with \<^verbatim>\<open>str.replace\<close>, which deletes every
  occurrence of \<^verbatim>\<open>_search_provider\<close> in the stem, not only the suffix: for the file below,
  stripping the suffix gives \<^verbatim>\<open>news_search_provider_v2\<close>, the registry answers \<^verbatim>\<open>news_v2\<close>.
\<close>

theorem supported_providers_replace_all:
  "fst (get_supported_providers
          ((mock_world JNull)\<lparr>providers_dir := [''news_search_provider_v2_search_provider.py'']\<rparr>)) =
     {''news_v2''}"
  by (simp add: registry_defs mock_world_def Let_def)

subsection \<open>Construction of the adapters\<close>

lemma resolve_key_missing: "resolve_key msg None None = Inl (ValueError msg)"
  by (simp add: resolve_key_def or_getenv_def)

lemma resolve_key_explicit: "key \<noteq> [] \<Longrightarrow> resolve_key msg (Some key) env = Inr key"
  by (simp add: resolve_key_def or_getenv_def)

lemma resolve_key_environ: "v \<noteq> [] \<Longrightarrow> resolve_key msg None (Some v) = Inr v"
  by (simp add: resolve_key_def or_getenv_def)

lemma create_provider_you_missing:
  "environ w ''YOU_COM_API_KEY'' = None \<Longrightarrow>
   \<exists>msg. create_provider ''you'' [] w = (Inl (ValueError msg), emit (Instantiate ''YouSearchProvider'') w)"
  by (simp add: registry_defs bind_err_def emit_def)

lemma create_provider_serp_missing:
  "environ w ''SERP_API_KEY'' = None \<Longrightarrow>
   \<exists>msg. create_provider ''serp'' [] w = (Inl (ValueError msg), emit (Instantiate ''SerpSearchProvider'') w)"
  by (simp add: registry_defs bind_err_def emit_def)

lemma create_provider_tavily_missing:
  "environ w ''TAVILY_API_KEY'' = None \<Longrightarrow>
   \<exists>msg. create_provider ''tavily'' [] w = (Inl (ValueError msg), emit (Instantiate ''TavilySearchProvider'') w)"
  by (simp add: registry_defs bind_err_def emit_def)

text \<open>
  C9. Each constructor raises \<^verbatim>\<open>ValueError\<close> when no key is passed and its own environment
  variable is unset, and returns the adapter holding the key when a non-empty key is passed
  or the variable holds a non-empty value; an empty key counts as no key. Through the
  registry, the failure leaves the instantiation as the only event: no request was issued.
\<close>

theorem construction_fails_closed:
  "(env ''YOU_COM_API_KEY'' = None \<longrightarrow> (\<exists>msg. YouSearchProvider_init env None = Inl (ValueError msg)))
   \<and> (env ''SERP_API_KEY'' = None \<longrightarrow> (\<exists>msg. SerpSearchProvider_init env None = Inl (ValueError msg)))
   \<and> (env ''TAVILY_API_KEY'' = None \<longrightarrow> (\<exists>msg. TavilySearchProvider_init env None = Inl (ValueError msg)))
   \<and> (key \<noteq> [] \<longrightarrow>
        YouSearchProvider_init env (Some key) = Inr (YouSearchProvider key)
        \<and> SerpSearchProvider_init env (Some key) = Inr (SerpSearchProvider key)
        \<and> TavilySearchProvider_init env (Some key) = Inr (TavilySearchProvider key))
   \<and> (v \<noteq> [] \<longrightarrow>
        (env ''YOU_COM_API_KEY'' = Some v \<longrightarrow> YouSearchProvider_init env None = Inr (YouSearchProvider v))
        \<and> (env ''SERP_API_KEY'' = Some v \<longrightarrow> SerpSearchProvider_init env None = Inr (SerpSearchProvider v))
        \<and> (env ''TAVILY_API_KEY'' = Some v \<longrightarrow>
              TavilySearchProvider_init env None = Inr (TavilySearchProvider v)))
   \<and> YouSearchProvider_init env (Some []) = YouSearchProvider_init env None
   \<and> SerpSearchProvider_init env (Some []) = SerpSearchProvider_init env None
   \<and> TavilySearchProvider_init env (Some []) = TavilySearchProvider_init env None
   \<and> (environ w ''YOU_COM_API_KEY'' = None \<longrightarrow>
        (\<exists>msg. create_provider ''you'' [] w =
                 (Inl (ValueError msg), emit (Instantiate ''YouSearchProvider'') w)))
   \<and> (environ w ''SERP_API_KEY'' = None \<longrightarrow>
        (\<exists>msg. create_provider ''serp'' [] w =
                 (Inl (ValueError msg), emit (Instantiate ''SerpSearchProvider'') w)))
   \<and> (environ w ''TAVILY_API_KEY'' = None \<longrightarrow>
        (\<exists>msg. create_provider ''tavily'' [] w =
                 (Inl (ValueError msg), emit (Instantiate ''TavilySearchProvider'') w)))"
proof -
  have missing: "env ''YOU_COM_API_KEY'' = None \<longrightarrow> (\<exists>msg. YouSearchProvider_init env None = Inl (ValueError msg))"
    "env ''SERP_API_KEY'' = None \<longrightarrow> (\<exists>msg. SerpSearchProvider_init env None = Inl (ValueError msg))"
    "env ''TAVILY_API_KEY'' = None \<longrightarrow> (\<exists>msg. TavilySearchProvider_init env None = Inl (ValueError msg))"
    by (simp_all add: YouSearchProvider_init_def SerpSearchProvider_init_def TavilySearchProvider_init_def
        resolve_key_missing bind_err_def)
  have explicit: "key \<noteq> [] \<longrightarrow>
        YouSearchProvider_init env (Some key) = Inr (YouSearchProvider key)
        \<and> SerpSearchProvider_init env (Some key) = Inr (SerpSearchProvider key)
        \<and> TavilySearchProvider_init env (Some key) = Inr (TavilySearchProvider key)"
    by (simp add: YouSearchProvider_init_def SerpSearchProvider_init_def TavilySearchProvider_init_def
        resolve_key_explicit bind_err_def)
  have fallback: "v \<noteq> [] \<longrightarrow>
        (env ''YOU_COM_API_KEY'' = Some v \<longrightarrow> YouSearchProvider_init env None = Inr (YouSearchProvider v))
        \<and> (env ''SERP_API_KEY'' = Some v \<longrightarrow> SerpSearchProvider_init env None = Inr (SerpSearchProvider v))
        \<and> (env ''TAVILY_API_KEY'' = Some v \<longrightarrow>
              TavilySearchProvider_init env None = Inr (TavilySearchProvider v))"
    by (simp add: YouSearchProvider_init_def SerpSearchProvider_init_def TavilySearchProvider_init_def
        resolve_key_environ bind_err_def)
  have empty: "YouSearchProvider_init env (Some []) = YouSearchProvider_init env None"
    "SerpSearchProvider_init env (Some []) = SerpSearchProvider_init env None"
    "TavilySearchProvider_init env (Some []) = TavilySearchProvider_init env None"
    by (simp_all add: YouSearchProvider_init_def SerpSearchProvider_init_def TavilySearchProvider_init_def
        resolve_key_def or_getenv_def)
  show ?thesis
    using missing explicit fallback empty create_provider_you_missing [of w]
      create_provider_serp_missing [of w] create_provider_tavily_missing [of w]
    by blast
qed

theorem construction_fails_closed_witness:
  "(\<exists>msg. YouSearchProvider_init (\<lambda>name. None) None = Inl (ValueError msg))
   \<and> ''secret'' \<noteq> []
   \<and> YouSearchProvider_init (\<lambda>name. None) (Some ''secret'') = Inr (YouSearchProvider ''secret'')
   \<and> YouSearchProvider_init ((\<lambda>name. None)(''YOU_COM_API_KEY'' := Some ''secret'')) None
       = Inr (YouSearchProvider ''secret'')
   \<and> (\<exists>msg. trace (snd (create_provider ''you'' [] (mock_world JNull))) = [Instantiate ''YouSearchProvider'']
          \<and> fst (create_provider ''you'' [] (mock_world JNull)) = Inl (ValueError msg))"
  using construction_fails_closed [of "\<lambda>name. None" "''secret''" "''secret''" "mock_world JNull"]
    construction_fails_closed [of "(\<lambda>name. None)(''YOU_COM_API_KEY'' := Some ''secret'')" "''secret''" "''secret''"
      "mock_world JNull"]
  by (auto simp: mock_world_def emit_def)


subsection \<open>The provider string and its validation\<close>

lemma partition_str_no_sep: "sep \<notin> set p \<Longrightarrow> partition_str sep p = (p, [], [])"
  by (induction p) auto

lemma partition_str_first: "sep \<notin> set a \<Longrightarrow> partition_str sep (a @ sep # b) = (a, [sep], b)"
  by (induction a) auto

lemma validate_provider_key_supported:
  "key \<in> fst (get_supported_providers w) \<Longrightarrow>
   validate_provider_key key w = (Inr (), snd (get_supported_providers w))"
  by (cases "get_supported_providers w") (simp add: validate_provider_key_def)

lemma validate_provider_key_unsupported:
  "key \<notin> fst (get_supported_providers w) \<Longrightarrow>
   validate_provider_key key w =
     (Inl (InvalidProviderKey key (fst (get_supported_providers w))), snd (get_supported_providers w))"
  by (cases "get_supported_providers w") (simp add: validate_provider_key_def)

lemma search_unsupported:
  assumes "partition_str (CHR '':'') provider = (key, m, f)"
    and "key \<notin> fst (get_supported_providers w)"
  shows "SearchClient_search c provider q kw w =
     (Inl (InvalidProviderKey key (fst (get_supported_providers w))), c, snd (get_supported_providers w))"
  using assms by (simp add: SearchClient_search_def validate_provider_key_unsupported)

text \<open>
  C2. When the provider key (a string without a colon) is not in the set that
  \<^verbatim>\<open>get_supported_providers\<close> returns, \<^verbatim>\<open>search\<close> with the key, alone or followed by a colon
  and a token, raises the error that carries the key and the supported set. The client is
  returned unchanged and the trace has no new event: nothing was instantiated and nothing
  was sent; only the memo table of the registry may have been filled.
\<close>

theorem unknown_provider_rejected:
  assumes "CHR '':'' \<notin> set key"
    and "key \<notin> fst (get_supported_providers w)"
  shows "SearchClient_search c key q kw w =
           (Inl (InvalidProviderKey key (fst (get_supported_providers w))), c,
            snd (get_supported_providers w))
       \<and> SearchClient_search c (key @ '':'' @ f) q kw w =
           (Inl (InvalidProviderKey key (fst (get_supported_providers w))), c,
            snd (get_supported_providers w))
       \<and> trace (snd (get_supported_providers w)) = trace w"
  using search_unsupported [OF partition_str_no_sep [OF assms(1)] assms(2)]
    search_unsupported [OF _ assms(2), of "key @ '':'' @ f" "'':''" f]
    partition_str_first [OF assms(1), of f] get_supported_providers_trace [of w]
  by simp

theorem unknown_provider_rejected_witness:
  "CHR '':'' \<notin> set ''you.com''
   \<and> ''you.com'' \<notin> fst (get_supported_providers (mock_world JNull))
   \<and> SearchClient_search \<lparr>providers = [], provider_configs = 0\<rparr> ''you.com'' ''who is messi'' []
        (mock_world JNull) =
       (Inl (InvalidProviderKey ''you.com'' {''serp'', ''tavily'', ''you''}),
        \<lparr>providers = [], provider_configs = 0\<rparr>,
        (mock_world JNull)\<lparr>supported_cache := Some {''serp'', ''tavily'', ''you''}\<rparr>)
   \<and> fst (SearchClient_search \<lparr>providers = [], provider_configs = 0\<rparr> ''you.com:get_news''
             ''who is messi'' [] (mock_world JNull)) =
       Inl (InvalidProviderKey ''you.com'' {''serp'', ''tavily'', ''you''})
   \<and> trace (snd (snd (SearchClient_search \<lparr>providers = [], provider_configs = 0\<rparr> ''you.com:get_news''
             ''who is messi'' [] (mock_world JNull)))) = []"
proof -
  have s: "get_supported_providers (mock_world JNull) =
             ({''serp'', ''tavily'', ''you''},
              (mock_world JNull)\<lparr>supported_cache := Some {''serp'', ''tavily'', ''you''}\<rparr>)"
    using scan_repo_providers_dir
    by (simp add: get_supported_providers_def mock_world_def Let_def)
  have h1: "CHR '':'' \<notin> set ''you.com''" by simp
  have h2: "''you.com'' \<notin> fst (get_supported_providers (mock_world JNull))"
    by (simp add: s)
  show ?thesis
    using h1 h2 unknown_provider_rejected [OF h1 h2, of "\<lparr>providers = [], provider_configs = 0\<rparr>"
        "''who is messi''" "[]" "''get_news''"]
    by (simp add: s) (simp add: mock_world_def)
qed


subsection \<open>Routing of the token\<close>

lemma search_cached:
  assumes "partition_str (CHR '':'') provider = (key, m, f)"
    and "key \<in> fst (get_supported_providers w)"
    and "map_of (providers c) key = Some inst"
    and "''specific_function'' \<notin> fst ` set kw"
  shows "SearchClient_search c provider q kw w =
     (case adapter_search inst q (Some f) kw (snd (get_supported_providers w)) of (r, w') \<Rightarrow> (r, c, w'))"
  using assms by (simp add: SearchClient_search_def validate_provider_key_supported)

lemma search_on_demand:
  assumes "partition_str (CHR '':'') provider = (key, m, f)"
    and "key \<in> fst (get_supported_providers w)"
    and "map_of (providers c) key = None"
    and "create_provider key (dict_get (dict_heap (snd (get_supported_providers w)) (provider_configs c)) key [])
           (snd (get_supported_providers w)) = (Inr inst, w2)"
    and "''specific_function'' \<notin> fst ` set kw"
  shows "SearchClient_search c provider q kw w =
     (case adapter_search inst q (Some f) kw w2 of
        (r, w') \<Rightarrow> (r, c\<lparr>providers := AList.update key inst (providers c)\<rparr>, w'))"
  using assms by (simp add: SearchClient_search_def validate_provider_key_supported update_conv')

lemma search_on_demand_fails:
  assumes "partition_str (CHR '':'') provider = (key, m, f)"
    and "key \<in> fst (get_supported_providers w)"
    and "map_of (providers c) key = None"
    and "create_provider key (dict_get (dict_heap (snd (get_supported_providers w)) (provider_configs c)) key [])
           (snd (get_supported_providers w)) = (Inl e, w2)"
  shows "SearchClient_search c provider q kw w = (Inl e, c, w2)"
  using assms by (simp add: SearchClient_search_def validate_provider_key_supported)

lemma adapter_search_empty_token:
  "adapter_search inst q (Some []) kw w = adapter_search inst q None kw w"
  by (cases inst) (simp_all add: serp_search_def serp_params_def tavily_search_def you_search_def)

lemma serp_search_default_path:
  "adapter_search (SerpSearchProvider k) q (Some []) kw w =
     ((case upstream w (GoogleSearch
               (dict_merge [(''q'', JStr q), (''api_key'', JStr k), (''engine'', JStr ''google'')] kw)) of
         Inl e \<Rightarrow> Inl e
       | Inr results \<Rightarrow>
           map_results results ''organic_results''
             (organic_result (py_repr w)
                (dict_merge [(''q'', JStr q), (''api_key'', JStr k), (''engine'', JStr ''google'')] kw))),
      emit (Call (GoogleSearch
               (dict_merge [(''q'', JStr q), (''api_key'', JStr k), (''engine'', JStr ''google'')] kw))) w)"
  by (simp add: serp_search_def serp_params_def call_upstream_def Let_def split: sum.splits)

lemma tavily_search_default_path:
  "adapter_search (TavilySearchProvider k) q (Some []) kw w =
     ((case upstream w (TavilySearch k q kw) of
         Inl e \<Rightarrow> Inl e
       | Inr response \<Rightarrow> map_results response ''results'' tavily_result),
      emit (Call (TavilySearch k q kw)) w)"
  by (simp add: tavily_search_def call_upstream_def split: sum.splits)

lemma you_search_default_path:
  "adapter_search (YouSearchProvider k) q (Some []) kw w =
     ((case upstream w (HttpxGet (BASE_URL @ ''/search?query='' @ q) (dict_merge [(''query'', JStr q)] kw)
                          (you_headers k)) of
         Inl e \<Rightarrow> Inl e
       | Inr data \<Rightarrow> map_results data ''hits'' hit_result),
      emit (Call (HttpxGet (BASE_URL @ ''/search?query='' @ q) (dict_merge [(''query'', JStr q)] kw)
                    (you_headers k))) w)"
  by (simp add: you_search_def call_upstream_def Let_def split: sum.splits)

lemma serp_default_results:
  assumes "upstream w (GoogleSearch
               (dict_merge [(''q'', JStr q), (''api_key'', JStr k), (''engine'', JStr ''google'')] kw))
             = Inr (JObj data)"
    and "map_of data ''organic_results'' = Some (JArr (map JObj ds))"
  shows "\<exists>e. map_of (dict_merge [(''q'', JStr q), (''api_key'', JStr k), (''engine'', JStr ''google'')] kw)
               ''engine'' = Some e
           \<and> fst (adapter_search (SerpSearchProvider k) q (Some []) kw w) =
               Inr (map (\<lambda>d. \<lparr>title = dict_get d ''title'' (JStr []),
                                url = dict_get d ''link'' (JStr []),
                                content = dict_get d ''snippet'' (JStr []),
                                source = ''serpapi:'' @ py_str (py_repr w) e\<rparr>) ds)"
proof -
  have p: "serp_params k q (Some []) kw =
       dict_merge [(''q'', JStr q), (''api_key'', JStr k), (''engine'', JStr ''google'')] kw"
    by (simp add: serp_params_def)
  show ?thesis
    using serp_normalization [of "Some []" w k q kw data ds] assms
    by (simp add: p)
qed

lemma tavily_default_results:
  assumes "upstream w (TavilySearch k q kw) = Inr (JObj data)"
    and "map_of data ''results'' = Some (JArr (map JObj ds))"
  shows "fst (adapter_search (TavilySearchProvider k) q (Some []) kw w) =
           Inr (map (\<lambda>d. \<lparr>title = dict_get d ''title'' (JStr []),
                            url = dict_get d ''url'' (JStr []),
                            content = dict_get d ''content'' (JStr []),
                            source = ''tavily''\<rparr>) ds)"
  using tavily_normalization [OF assms(1), of "Some []" ds] assms(2) by simp

lemma you_default_results:
  assumes "upstream w (HttpxGet (BASE_URL @ ''/search?query='' @ q) (dict_merge [(''query'', JStr q)] kw)
                         (you_headers k)) = Inr (JObj data)"
    and "map_of data ''hits'' = Some (JArr (map JObj ds))"
    and "list_all (\<lambda>d. truthy (dict_get d ''description'' (JStr []))
                        \<or> \<not> isl (py_join '' '' (dict_get d ''snippets'' (JArr [])))) ds"
  shows "fst (adapter_search (YouSearchProvider k) q (Some []) kw w) =
           Inr (map (\<lambda>d. \<lparr>title = dict_get d ''title'' (JStr []),
                            url = dict_get d ''url'' (JStr []),
                            content = (if truthy (dict_get d ''description'' (JStr []))
                                       then dict_get d ''description'' (JStr [])
                                       else JStr (projr (py_join '' '' (dict_get d ''snippets'' (JArr []))))),
                            source = ''you.com''\<rparr>) ds)"
  using you_normalization [of "Some []" w q kw k data ds] assms by simp

lemma serp_default_engine:
  "(''engine'' \<notin> fst ` set kw \<longrightarrow>
      map_of (dict_merge [(''q'', JStr q), (''api_key'', JStr k), (''engine'', JStr ''google'')] kw)
        ''engine'' = Some (JStr ''google''))
   \<and> (distinct (map fst kw) \<longrightarrow> map_of kw ''engine'' = Some v \<longrightarrow>
      map_of (dict_merge [(''q'', JStr q), (''api_key'', JStr k), (''engine'', JStr ''google'')] kw)
        ''engine'' = Some v)"
  by (simp add: map_of_dict_merge_notin map_of_dict_merge_distinct map_add_def)

text \<open>
  C3, as stated, fails in its example: with the empty token the serp adapter does not always
  keep \<^verbatim>\<open>engine="google"\<close>. The call \<^verbatim>\<open>search("serp", "cats", engine="bing")\<close> has no token,
  takes the default path, and sends \<^verbatim>\<open>engine=bing\<close>.
\<close>

theorem provider_string_engine_counterexample:
  "trace (snd (snd (SearchClient_search
       \<lparr>providers = [(''serp'', SerpSearchProvider ''k'')], provider_configs = 0\<rparr>
       ''serp'' ''cats'' [(''engine'', JStr ''bing'')] (mock_world (JObj []))))) =
     [Call (GoogleSearch [(''q'', JStr ''cats''), (''api_key'', JStr ''k''), (''engine'', JStr ''bing'')])]"
  by (simp add: client_defs registry_defs adapter_defs Let_def)


text \<open>
  C3, amended. The provider string is cut at its first colon: what precedes it is the
  provider key, what follows it, later colons included, is the token handed to the adapter,
  and a string without a colon gives the empty token, whether the adapter is already cached
  or is built on demand. The empty token behaves as the absent one, and it takes the default
  path of every adapter: serp sends the default parameters merged with the options and maps
  \<^verbatim>\<open>organic_results\<close>, tavily sends the query with the options and maps \<^verbatim>\<open>results\<close>, You.com
  calls the web-search endpoint and maps \<^verbatim>\<open>hits\<close>. On that path the serp engine is
  \<^verbatim>\<open>google\<close> when the options name no engine, and the options' engine otherwise.
\<close>

theorem provider_string_split:
  "(CHR '':'' \<notin> set a \<longrightarrow>
      partition_str (CHR '':'') (a @ '':'' @ b) = (a, '':'', b)
      \<and> partition_str (CHR '':'') a = (a, [], []))
   \<and> (CHR '':'' \<notin> set a \<longrightarrow> a \<in> fst (get_supported_providers w) \<longrightarrow>
       ''specific_function'' \<notin> fst ` set kw \<longrightarrow>
        (map_of (providers c) a = Some inst \<longrightarrow>
           SearchClient_search c (a @ '':'' @ b) q kw w =
             (case adapter_search inst q (Some b) kw (snd (get_supported_providers w)) of
                (r, w') \<Rightarrow> (r, c, w'))
           \<and> SearchClient_search c a q kw w =
             (case adapter_search inst q (Some []) kw (snd (get_supported_providers w)) of
                (r, w') \<Rightarrow> (r, c, w')))
        \<and> (map_of (providers c) a = None \<longrightarrow>
           create_provider a (dict_get (dict_heap (snd (get_supported_providers w)) (provider_configs c)) a [])
             (snd (get_supported_providers w)) = (Inr inst, w2) \<longrightarrow>
           SearchClient_search c (a @ '':'' @ b) q kw w =
             (case adapter_search inst q (Some b) kw w2 of
                (r, w') \<Rightarrow> (r, c\<lparr>providers := AList.update a inst (providers c)\<rparr>, w'))
           \<and> SearchClient_search c a q kw w =
             (case adapter_search inst q (Some []) kw w2 of
                (r, w') \<Rightarrow> (r, c\<lparr>providers := AList.update a inst (providers c)\<rparr>, w'))))
   \<and> adapter_search inst q (Some []) kw w = adapter_search inst q None kw w
   \<and> adapter_search (SerpSearchProvider k) q (Some []) kw w =
       ((case upstream w (GoogleSearch
                 (dict_merge [(''q'', JStr q), (''api_key'', JStr k), (''engine'', JStr ''google'')] kw)) of
           Inl e \<Rightarrow> Inl e
         | Inr results \<Rightarrow>
             map_results results ''organic_results''
               (organic_result (py_repr w)
                  (dict_merge [(''q'', JStr q), (''api_key'', JStr k), (''engine'', JStr ''google'')] kw))),
        emit (Call (GoogleSearch
                 (dict_merge [(''q'', JStr q), (''api_key'', JStr k), (''engine'', JStr ''google'')] kw))) w)
   \<and> adapter_search (TavilySearchProvider k) q (Some []) kw w =
       ((case upstream w (TavilySearch k q kw) of
           Inl e \<Rightarrow> Inl e
         | Inr response \<Rightarrow> map_results response ''results'' tavily_result),
        emit (Call (TavilySearch k q kw)) w)
   \<and> adapter_search (YouSearchProvider k) q (Some []) kw w =
       ((case upstream w (HttpxGet (BASE_URL @ ''/search?query='' @ q) (dict_merge [(''query'', JStr q)] kw)
                            (you_headers k)) of
           Inl e \<Rightarrow> Inl e
         | Inr data \<Rightarrow> map_results data ''hits'' hit_result),
        emit (Call (HttpxGet (BASE_URL @ ''/search?query='' @ q) (dict_merge [(''query'', JStr q)] kw)
                      (you_headers k))) w)
   \<and> (upstream w (GoogleSearch
                 (dict_merge [(''q'', JStr q), (''api_key'', JStr k), (''engine'', JStr ''google'')] kw))
         = Inr (JObj data) \<longrightarrow>
       map_of data ''organic_results'' = Some (JArr (map JObj ds)) \<longrightarrow>
        (\<exists>e. map_of (dict_merge [(''q'', JStr q), (''api_key'', JStr k), (''engine'', JStr ''google'')] kw)
                ''engine'' = Some e
           \<and> fst (adapter_search (SerpSearchProvider k) q (Some []) kw w) =
               Inr (map (\<lambda>d. \<lparr>title = dict_get d ''title'' (JStr []),
                                url = dict_get d ''link'' (JStr []),
                                content = dict_get d ''snippet'' (JStr []),
                                source = ''serpapi:'' @ py_str (py_repr w) e\<rparr>) ds)))
   \<and> (upstream w (TavilySearch k q kw) = Inr (JObj data) \<longrightarrow>
       map_of data ''results'' = Some (JArr (map JObj ds)) \<longrightarrow>
        fst (adapter_search (TavilySearchProvider k) q (Some []) kw w) =
          Inr (map (\<lambda>d. \<lparr>title = dict_get d ''title'' (JStr []),
                           url = dict_get d ''url'' (JStr []),
                           content = dict_get d ''content'' (JStr []),
                           source = ''tavily''\<rparr>) ds))
   \<and> (upstream w (HttpxGet (BASE_URL @ ''/search?query='' @ q) (dict_merge [(''query'', JStr q)] kw)
                     (you_headers k)) = Inr (JObj data) \<longrightarrow>
       map_of data ''hits'' = Some (JArr (map JObj ds)) \<longrightarrow>
       list_all (\<lambda>d. truthy (dict_get d ''description'' (JStr []))
                      \<or> \<not> isl (py_join '' '' (dict_get d ''snippets'' (JArr [])))) ds \<longrightarrow>
        fst (adapter_search (YouSearchProvider k) q (Some []) kw w) =
          Inr (map (\<lambda>d. \<lparr>title = dict_get d ''title'' (JStr []),
                           url = dict_get d ''url'' (JStr []),
                           content = (if truthy (dict_get d ''description'' (JStr []))
                                      then dict_get d ''description'' (JStr [])
                                      else JStr (projr (py_join '' '' (dict_get d ''snippets'' (JArr []))))),
                           source = ''you.com''\<rparr>) ds))
   \<and> (''engine'' \<notin> fst ` set kw \<longrightarrow>
        map_of (dict_merge [(''q'', JStr q), (''api_key'', JStr k), (''engine'', JStr ''google'')] kw)
          ''engine'' = Some (JStr ''google''))
   \<and> (distinct (map fst kw) \<longrightarrow> map_of kw ''engine'' = Some v \<longrightarrow>
        map_of (dict_merge [(''q'', JStr q), (''api_key'', JStr k), (''engine'', JStr ''google'')] kw)
          ''engine'' = Some v)"
proof -
  have split: "partition_str (CHR '':'') (a @ '':'' @ b) = (a, '':'', b)"
    "partition_str (CHR '':'') a = (a, [], [])" if "CHR '':'' \<notin> set a"
    using that partition_str_first [of "CHR '':''" a b] partition_str_no_sep [of "CHR '':''" a]
    by simp_all
  have facade: "CHR '':'' \<notin> set a \<longrightarrow> a \<in> fst (get_supported_providers w) \<longrightarrow>
       ''specific_function'' \<notin> fst ` set kw \<longrightarrow>
        (map_of (providers c) a = Some inst \<longrightarrow>
           SearchClient_search c (a @ '':'' @ b) q kw w =
             (case adapter_search inst q (Some b) kw (snd (get_supported_providers w)) of
                (r, w') \<Rightarrow> (r, c, w'))
           \<and> SearchClient_search c a q kw w =
             (case adapter_search inst q (Some []) kw (snd (get_supported_providers w)) of
                (r, w') \<Rightarrow> (r, c, w')))
        \<and> (map_of (providers c) a = None \<longrightarrow>
           create_provider a (dict_get (dict_heap (snd (get_supported_providers w)) (provider_configs c)) a [])
             (snd (get_supported_providers w)) = (Inr inst, w2) \<longrightarrow>
           SearchClient_search c (a @ '':'' @ b) q kw w =
             (case adapter_search inst q (Some b) kw w2 of
                (r, w') \<Rightarrow> (r, c\<lparr>providers := AList.update a inst (providers c)\<rparr>, w'))
           \<and> SearchClient_search c a q kw w =
             (case adapter_search inst q (Some []) kw w2 of
                (r, w') \<Rightarrow> (r, c\<lparr>providers := AList.update a inst (providers c)\<rparr>, w')))"
    using split search_cached [OF split(1), of w c inst kw q] search_cached [OF split(2), of w c inst kw q]
      search_on_demand [OF split(1), of w c inst w2 kw q] search_on_demand [OF split(2), of w c inst w2 kw q]
    by simp
  show ?thesis
    apply (intro conjI)
    subgoal using split by simp
    subgoal by (rule facade)
    subgoal by (rule adapter_search_empty_token)
    subgoal by (rule serp_search_default_path)
    subgoal by (rule tavily_search_default_path)
    subgoal by (rule you_search_default_path)
    subgoal using serp_default_results [of w q k kw data ds] by blast
    subgoal using tavily_default_results [of w k q kw data ds] by blast
    subgoal using you_default_results [of w q kw k data ds] by blast
    subgoal using serp_default_engine [of kw q k v] by blast
    subgoal using serp_default_engine [of kw q k v] by blast
    done
qed


theorem provider_string_split_witness:
  "CHR '':'' \<notin> set ''serp'' \<and> CHR '':'' \<notin> set ''tavily'' \<and> CHR '':''
      \<notin> set ''you''
   \<and> partition_str (CHR '':'') ''serp:a:b'' = (''serp'', '':'', ''a:b'')
   \<and> {''serp'', ''tavily'', ''you''} \<subseteq> fst (get_supported_providers (mock_world (JObj
       [(''organic_results'', JArr [JObj [(''title'', JStr ''T'')]]), (''results'', JArr [JObj
       [(''url'', JStr ''U'')]]), (''hits'', JArr [JObj [(''description'', JStr ''D'')]])])))
   \<and> ''specific_function'' \<notin> fst ` set ([] :: pydict)
   \<and> trace (snd (snd (SearchClient_search \<lparr>providers = [(''serp'', SerpSearchProvider
       ''k''), (''tavily'', TavilySearchProvider ''k''), (''you'', YouSearchProvider ''k'')],
       provider_configs = 0\<rparr> ''serp:a:b'' ''cats'' [] (mock_world (JObj
       [(''organic_results'', JArr [JObj [(''title'', JStr ''T'')]]), (''results'', JArr [JObj
       [(''url'', JStr ''U'')]]), (''hits'', JArr [JObj [(''description'', JStr ''D'')]])]))))) =
       [Call (GoogleSearch [(''q'', JStr ''cats''), (''api_key'', JStr ''k''), (''engine'', JStr
           ''a:b'')])]
   \<and> trace (snd (snd (SearchClient_search \<lparr>providers = [(''serp'', SerpSearchProvider
       ''k''), (''tavily'', TavilySearchProvider ''k''), (''you'', YouSearchProvider ''k'')],
       provider_configs = 0\<rparr> ''serp'' ''cats'' [] (mock_world (JObj [(''organic_results'',
       JArr [JObj [(''title'', JStr ''T'')]]), (''results'', JArr [JObj [(''url'', JStr ''U'')]]),
       (''hits'', JArr [JObj [(''description'', JStr ''D'')]])]))))) =
       [Call (GoogleSearch [(''q'', JStr ''cats''), (''api_key'', JStr ''k''), (''engine'', JStr
           ''google'')])]
   \<and> fst (SearchClient_search \<lparr>providers = [(''serp'', SerpSearchProvider ''k''),
       (''tavily'', TavilySearchProvider ''k''), (''you'', YouSearchProvider ''k'')],
       provider_configs = 0\<rparr> ''serp'' ''cats'' [] (mock_world (JObj [(''organic_results'',
       JArr [JObj [(''title'', JStr ''T'')]]), (''results'', JArr [JObj [(''url'', JStr ''U'')]]),
       (''hits'', JArr [JObj [(''description'', JStr ''D'')]])]))) =
       Inr [\<lparr>title = JStr ''T'', url = JStr [], content = JStr [], source =
           ''serpapi:google''\<rparr>]
   \<and> trace (snd (snd (SearchClient_search \<lparr>providers = [(''serp'', SerpSearchProvider
       ''k''), (''tavily'', TavilySearchProvider ''k''), (''you'', YouSearchProvider ''k'')],
       provider_configs = 0\<rparr> ''tavily'' ''cats'' [] (mock_world (JObj [(''organic_results'',
       JArr [JObj [(''title'', JStr ''T'')]]), (''results'', JArr [JObj [(''url'', JStr ''U'')]]),
       (''hits'', JArr [JObj [(''description'', JStr ''D'')]])]))))) =
       [Call (TavilySearch ''k'' ''cats'' [])]
   \<and> fst (SearchClient_search \<lparr>providers = [(''serp'', SerpSearchProvider ''k''),
       (''tavily'', TavilySearchProvider ''k''), (''you'', YouSearchProvider ''k'')],
       provider_configs = 0\<rparr> ''tavily'' ''cats'' [] (mock_world (JObj [(''organic_results'',
       JArr [JObj [(''title'', JStr ''T'')]]), (''results'', JArr [JObj [(''url'', JStr ''U'')]]),
       (''hits'', JArr [JObj [(''description'', JStr ''D'')]])]))) =
       Inr [\<lparr>title = JStr [], url = JStr ''U'', content = JStr [], source =
           ''tavily''\<rparr>]
   \<and> trace (snd (snd (SearchClient_search \<lparr>providers = [(''serp'', SerpSearchProvider
       ''k''), (''tavily'', TavilySearchProvider ''k''), (''you'', YouSearchProvider ''k'')],
       provider_configs = 0\<rparr> ''you'' ''cats'' [] (mock_world (JObj [(''organic_results'',
       JArr [JObj [(''title'', JStr ''T'')]]), (''results'', JArr [JObj [(''url'', JStr ''U'')]]),
       (''hits'', JArr [JObj [(''description'', JStr ''D'')]])]))))) =
       [Call (HttpxGet ''https://api.ydc-index.io/search?query=cats'' [(''query'', JStr ''cats'')]
               [(''X-API-Key'', ''k'')])]
   \<and> fst (SearchClient_search \<lparr>providers = [(''serp'', SerpSearchProvider ''k''),
       (''tavily'', TavilySearchProvider ''k''), (''you'', YouSearchProvider ''k'')],
       provider_configs = 0\<rparr> ''you'' ''cats'' [] (mock_world (JObj [(''organic_results'',
       JArr [JObj [(''title'', JStr ''T'')]]), (''results'', JArr [JObj [(''url'', JStr ''U'')]]),
       (''hits'', JArr [JObj [(''description'', JStr ''D'')]])]))) =
       Inr [\<lparr>title = JStr [], url = JStr [], content = JStr ''D'', source =
           ''you.com''\<rparr>]
   \<and> list_all (\<lambda>d. truthy (dict_get d ''description'' (JStr []))
                      \<or> \<not> isl (py_join '' '' (dict_get d ''snippets'' (JArr []))))
         [[(''description'', JStr ''D'')]]
   \<and> ''engine'' \<notin> fst ` set ([] :: pydict)
   \<and> distinct (map fst [(''engine'', JStr ''bing'')])
   \<and> map_of (dict_merge [(''q'', JStr ''cats''), (''api_key'', JStr ''k''), (''engine'', JStr
       ''google'')]
                 [(''engine'', JStr ''bing'')]) ''engine'' = Some (JStr ''bing'')"
proof -
  let ?W = "mock_world (JObj [(''organic_results'', JArr [JObj [(''title'', JStr ''T'')]]),
      (''results'', JArr [JObj [(''url'', JStr ''U'')]]), (''hits'', JArr [JObj [(''description'',
      JStr ''D'')]])])"
  let ?C = "\<lparr>providers = [(''serp'', SerpSearchProvider ''k''), (''tavily'',
      TavilySearchProvider ''k''), (''you'', YouSearchProvider ''k'')], provider_configs =
      0\<rparr>"
  let ?D = "[(''organic_results'', JArr [JObj [(''title'', JStr ''T'')]]), (''results'', JArr [JObj
      [(''url'', JStr ''U'')]]), (''hits'', JArr [JObj [(''description'', JStr ''D'')]])]"
  have s: "get_supported_providers ?W =
             ({''serp'', ''tavily'', ''you''},
              ?W\<lparr>supported_cache := Some {''serp'', ''tavily'', ''you''}\<rparr>)"
    using scan_repo_providers_dir
    by (simp add: get_supported_providers_def mock_world_def Let_def)
  show ?thesis
    using provider_string_split [of "''serp''" "''a:b''" ?W "[]" ?C
        "SerpSearchProvider ''k''" "''cats''" ?W "''k''" ?D "[[(''title'', JStr ''T'')]]" "JStr
            ''google''"]
      provider_string_split [of "''tavily''" "''x''" ?W "[]" ?C
        "TavilySearchProvider ''k''" "''cats''" ?W "''k''" ?D "[[(''url'', JStr ''U'')]]" "JStr
            ''google''"]
      provider_string_split [of "''you''" "''x''" ?W "[]" ?C
        "YouSearchProvider ''k''" "''cats''" ?W "''k''" ?D "[[(''description'', JStr ''D'')]]" "JStr
            ''google''"]
      provider_string_split [of "''serp''" "''a:b''" ?W "[(''engine'', JStr ''bing'')]" ?C
        "SerpSearchProvider ''k''" "''cats''" ?W "''k''" ?D "[[(''title'', JStr ''T'')]]" "JStr
            ''bing''"]
    by (simp add: s) (simp add: adapter_defs)
qed



subsection \<open>The facade end to end\<close>

lemma get_supported_providers_after_emit:
  "get_supported_providers (emit ev (snd (get_supported_providers w))) =
     (fst (get_supported_providers w), emit ev (snd (get_supported_providers w)))"
  by (simp add: get_supported_providers_def emit_def Let_def split: option.splits)

lemma create_provider_serp_key:
  "key \<noteq> [] \<Longrightarrow>
   create_provider ''serp'' [(''api_key'', key)] w =
     (Inr (SerpSearchProvider key), emit (Instantiate ''SerpSearchProvider'') w)"
  by (simp add: registry_defs bind_err_def)

lemma init_serp_configured:
  assumes "dict_heap w a = [(''serp'', [(''api_key'', ''k'')])]"
    and "''serp'' \<in> fst (get_supported_providers w)"
  shows "SearchClient_init (Some a) w =
     (Inr \<lparr>providers = [(''serp'', SerpSearchProvider ''k'')], provider_configs = a\<rparr>,
      emit (Instantiate ''SerpSearchProvider'') (snd (get_supported_providers w)))"
proof -
  have "dict_heap (snd (get_supported_providers w)) = dict_heap w"
    by (simp add: get_supported_providers_snd)
  then show ?thesis
    using assms
    by (simp add: SearchClient_init_def initialize_providers_def validate_provider_key_supported
        create_provider_serp_key)
qed

lemma serp_search_two_hits:
  assumes "upstream w (GoogleSearch [(''q'', JStr ''cats''), (''api_key'', JStr ''k''), (''engine'', JStr ''google'')])
             = Inr (JObj data)"
    and "map_of data ''organic_results'' = Some (JArr [JObj d1, JObj d2])"
  shows "fst (serp_search ''k'' ''cats'' (Some []) [] w) =
     Inr [\<lparr>title = dict_get d1 ''title'' (JStr []), url = dict_get d1 ''link'' (JStr []),
           content = dict_get d1 ''snippet'' (JStr []), source = ''serpapi:google''\<rparr>,
          \<lparr>title = dict_get d2 ''title'' (JStr []), url = dict_get d2 ''link'' (JStr []),
           content = dict_get d2 ''snippet'' (JStr []), source = ''serpapi:google''\<rparr>]"
proof -
  have p: "serp_params ''k'' ''cats'' (Some []) [] =
             [(''q'', JStr ''cats''), (''api_key'', JStr ''k''), (''engine'', JStr ''google'')]"
    by (simp add: serp_params_def dict_merge_def)
  have e: "map_of (serp_params ''k'' ''cats'' (Some []) []) ''engine'' = Some (JStr ''google'')"
    by (simp add: p)
  show ?thesis
    using assms serp_search_fst [of "Some []" w "''k''" "''cats''" "[]" "JObj data"]
    by (simp add: p [symmetric] map_results_arr organic_result_obj [OF e])
qed

text \<open>
  C6, as stated, fails: a client built from \<^verbatim>\<open>{"serp": {"api_key": "k"}}\<close> and asked
  \<^verbatim>\<open>search("serp", "cats")\<close> over a response with two organic results returns two results,
  but their source is the literal prefix of the adapter, \<^verbatim>\<open>serpapi:google\<close>, not
  \<^verbatim>\<open>serp:google\<close>.
\<close>

theorem facade_serp_source_counterexample:
  "map source (projr (fst (SearchClient_search
       (projr (fst (SearchClient_init (Some 1)
          (configured_world [(''serp'', [(''api_key'', ''k'')])]
             (JObj [(''organic_results'', JArr [JObj [(''title'', JStr ''A'')], JObj [(''title'', JStr ''B'')]])])))))
       ''serp'' ''cats'' []
       (snd (SearchClient_init (Some 1)
          (configured_world [(''serp'', [(''api_key'', ''k'')])]
             (JObj [(''organic_results'', JArr [JObj [(''title'', JStr ''A'')], JObj [(''title'', JStr ''B'')]])])))))))
     = [''serpapi:google'', ''serpapi:google'']"
  by (simp add: client_defs registry_defs adapter_defs configured_world_def Let_def)

text \<open>
  C6, amended. With the configuration \<^verbatim>\<open>{"serp": {"api_key": "k"}}\<close>, the key \<^verbatim>\<open>serp\<close>
  supported, and an upstream response with two entries under \<^verbatim>\<open>organic_results\<close>,
  construction succeeds and \<^verbatim>\<open>search("serp", "cats")\<close> returns exactly two normalized
  results, each with source \<^verbatim>\<open>serpapi:google\<close>.
\<close>

theorem facade_serp_end_to_end:
  assumes "dict_heap w a = [(''serp'', [(''api_key'', ''k'')])]"
    and "''serp'' \<in> fst (get_supported_providers w)"
    and "upstream w (GoogleSearch [(''q'', JStr ''cats''), (''api_key'', JStr ''k''), (''engine'', JStr ''google'')])
           = Inr (JObj data)"
    and "map_of data ''organic_results'' = Some (JArr [JObj d1, JObj d2])"
  shows "\<exists>c w1 c2 w2.
           SearchClient_init (Some a) w = (Inr c, w1)
         \<and> SearchClient_search c ''serp'' ''cats'' [] w1 =
             (Inr [\<lparr>title = dict_get d1 ''title'' (JStr []), url = dict_get d1 ''link'' (JStr []),
                    content = dict_get d1 ''snippet'' (JStr []), source = ''serpapi:google''\<rparr>,
                   \<lparr>title = dict_get d2 ''title'' (JStr []), url = dict_get d2 ''link'' (JStr []),
                    content = dict_get d2 ''snippet'' (JStr []), source = ''serpapi:google''\<rparr>],
              c2, w2)"
proof -
  let ?c = "\<lparr>providers = [(''serp'', SerpSearchProvider ''k'')], provider_configs = a\<rparr>"
  let ?w1 = "emit (Instantiate ''SerpSearchProvider'') (snd (get_supported_providers w))"
  have init: "SearchClient_init (Some a) w = (Inr ?c, ?w1)"
    using assms(1,2) by (rule init_serp_configured)
  have sup: "get_supported_providers ?w1 = (fst (get_supported_providers w), ?w1)"
    by (rule get_supported_providers_after_emit)
  have up: "upstream ?w1 = upstream w"
    by (simp add: emit_def get_supported_providers_snd)
  have part: "partition_str (CHR '':'') ''serp'' = (''serp'', [], [])"
    by simp
  have "SearchClient_search ?c ''serp'' ''cats'' [] ?w1 =
          (case adapter_search (SerpSearchProvider ''k'') ''cats'' (Some []) [] (snd (get_supported_providers ?w1)) of
             (r, w') \<Rightarrow> (r, ?c, w'))"
    using assms(2) by (intro search_cached [OF part]) (simp_all add: sup)
  also have "\<dots> = (fst (serp_search ''k'' ''cats'' (Some []) [] ?w1), ?c,
                     snd (serp_search ''k'' ''cats'' (Some []) [] ?w1))"
    by (simp add: sup split: prod.splits)
  finally show ?thesis
    using init serp_search_two_hits [of ?w1 data d1 d2] assms(3,4)
    by (simp add: up)
qed

theorem facade_serp_end_to_end_witness:
  "dict_heap (configured_world [(''serp'', [(''api_key'', ''k'')])]
               (JObj [(''organic_results'', JArr [JObj [(''title'', JStr ''A'')], JObj [(''link'', JStr ''B'')]])])) 1
     = [(''serp'', [(''api_key'', ''k'')])]
   \<and> ''serp'' \<in> fst (get_supported_providers (configured_world [(''serp'', [(''api_key'', ''k'')])]
               (JObj [(''organic_results'', JArr [JObj [(''title'', JStr ''A'')], JObj [(''link'', JStr ''B'')]])])))
   \<and> (\<exists>c w1 c2 w2.
        SearchClient_init (Some 1) (configured_world [(''serp'', [(''api_key'', ''k'')])]
               (JObj [(''organic_results'', JArr [JObj [(''title'', JStr ''A'')], JObj [(''link'', JStr ''B'')]])]))
          = (Inr c, w1)
      \<and> SearchClient_search c ''serp'' ''cats'' [] w1 =
          (Inr [\<lparr>title = JStr ''A'', url = JStr [], content = JStr [], source = ''serpapi:google''\<rparr>,
                \<lparr>title = JStr [], url = JStr ''B'', content = JStr [], source = ''serpapi:google''\<rparr>],
           c2, w2))"
proof -
  let ?w = "configured_world [(''serp'', [(''api_key'', ''k'')])]
               (JObj [(''organic_results'', JArr [JObj [(''title'', JStr ''A'')], JObj [(''link'', JStr ''B'')]])])"
  have h1: "dict_heap ?w 1 = [(''serp'', [(''api_key'', ''k'')])]"
    by (simp add: configured_world_def mock_world_def)
  have h2: "''serp'' \<in> fst (get_supported_providers ?w)"
    using scan_repo_providers_dir
    by (simp add: get_supported_providers_def configured_world_def mock_world_def Let_def)
  have h3: "upstream ?w (GoogleSearch [(''q'', JStr ''cats''), (''api_key'', JStr ''k''), (''engine'', JStr ''google'')])
        = Inr (JObj [(''organic_results'', JArr [JObj [(''title'', JStr ''A'')], JObj [(''link'', JStr ''B'')]])])"
    by (simp add: configured_world_def mock_world_def)
  have h4: "map_of [(''organic_results'', JArr [JObj [(''title'', JStr ''A'')], JObj [(''link'', JStr ''B'')]])]
             ''organic_results'' = Some (JArr [JObj [(''title'', JStr ''A'')], JObj [(''link'', JStr ''B'')]])"
    by simp
  show ?thesis
    using h1 h2 facade_serp_end_to_end [OF h1 h2 h3 h4]
    by (simp add: dict_get_def)
qed


subsection \<open>The shared default configuration dict\<close>

lemma create_provider_dict_heap: "dict_heap (snd (create_provider key cfg w)) = dict_heap w"
  by (simp add: create_provider_def instantiate_def emit_def Let_def split: option.splits)

lemma validate_provider_key_dict_heap: "dict_heap (snd (validate_provider_key key w)) = dict_heap w"
  by (cases "key \<in> fst (get_supported_providers w)")
     (simp_all add: validate_provider_key_supported validate_provider_key_unsupported
        get_supported_providers_snd)

lemma initialize_loop_dict_heap:
  "dict_heap (snd (snd (initialize_loop items c w))) = dict_heap w"
proof (induction items arbitrary: c w)
  case Nil
  then show ?case by simp
next
  case (Cons item items)
  obtain key cfg where item: "item = (key, cfg)" by (cases item)
  obtain r1 w1 where v: "validate_provider_key key w = (r1, w1)" by (cases "validate_provider_key key w")
  obtain r2 w2 where cp: "create_provider key cfg w1 = (r2, w2)" by (cases "create_provider key cfg w1")
  have h1: "dict_heap w1 = dict_heap w"
    using validate_provider_key_dict_heap [of key w] v by simp
  have h2: "dict_heap w2 = dict_heap w1"
    using create_provider_dict_heap [of key cfg w1] cp by simp
  show ?case
    using Cons.IH h1 h2 by (simp add: item v cp split: sum.splits)
qed

lemma initialize_loop_provider_configs:
  "provider_configs (fst (snd (initialize_loop items c w))) = provider_configs c"
proof (induction items arbitrary: c w)
  case Nil
  then show ?case by simp
next
  case (Cons item items)
  obtain key cfg where item: "item = (key, cfg)" by (cases item)
  obtain r1 w1 where v: "validate_provider_key key w = (r1, w1)" by (cases "validate_provider_key key w")
  obtain r2 w2 where cp: "create_provider key cfg w1 = (r2, w2)" by (cases "create_provider key cfg w1")
  show ?case
    using Cons.IH by (simp add: item v cp split: sum.splits)
qed

lemma initialize_loop_providers:
  "initialize_loop items c w = (Inr u, c', w') \<Longrightarrow>
   key \<in> fst ` set items \<or> map_of (providers c) key \<noteq> None \<Longrightarrow>
   map_of (providers c') key \<noteq> None"
proof (induction items arbitrary: c w)
  case Nil
  then show ?case by simp
next
  case (Cons item items)
  obtain k cfg where item: "item = (k, cfg)" by (cases item)
  from Cons.prems(1) obtain w1 a w2 where
    step: "validate_provider_key k w = (Inr (), w1)" "create_provider k cfg w1 = (Inr a, w2)"
      "initialize_loop items (c\<lparr>providers := AList.update k a (providers c)\<rparr>) w2 = (Inr u, c', w')"
    by (auto simp: item split: prod.splits sum.splits)
  have "key \<in> fst ` set items \<or> map_of (providers (c\<lparr>providers := AList.update k a (providers c)\<rparr>)) key \<noteq> None"
    using Cons.prems(2) by (auto simp: item update_conv')
  then show ?case
    by (rule Cons.IH [OF step(3)])
qed

lemma dict_merge_keys: "fst ` set (dict_merge base new) = fst ` set base \<union> fst ` set new"
  unfolding dict_merge_def
proof (induction new arbitrary: base)
  case Nil
  then show ?case by simp
next
  case (Cons x new)
  have "fst ` set (fold (\<lambda>kv. AList.update (fst kv) (snd kv)) new (AList.update (fst x) (snd x) base)) =
          fst ` set (AList.update (fst x) (snd x) base) \<union> fst ` set new"
    by (rule Cons)
  also have "\<dots> = insert (fst x) (fst ` set base) \<union> fst ` set new"
    by (simp only: dom_update insert_is_Un [symmetric])
  finally show ?case
    by simp
qed

lemma configure_dict_heap:
  "configure c (Some new) w = (r, c', w') \<Longrightarrow>
   dict_heap w' = (dict_heap w)(provider_configs c := dict_merge (dict_heap w (provider_configs c)) new)"
  using initialize_loop_dict_heap
    [of "dict_merge (dict_heap w (provider_configs c)) new" c
        "w\<lparr>dict_heap := (dict_heap w)(provider_configs c := dict_merge (dict_heap w (provider_configs c)) new)\<rparr>"]
  by (auto simp: configure_def initialize_providers_def Let_def)

lemma SearchClient_init_default:
  "SearchClient_init None w = (Inr c, w') \<Longrightarrow>
   provider_configs c = default_configs
   \<and> (\<forall>key \<in> fst ` set (dict_heap w default_configs). map_of (providers c) key \<noteq> None)"
proof -
  assume a: "SearchClient_init None w = (Inr c, w')"
  let ?c0 = "\<lparr>providers = [], provider_configs = default_configs\<rparr>"
  from a obtain u where l: "initialize_loop (dict_heap w default_configs) ?c0 w = (Inr u, c, w')"
    by (auto simp: SearchClient_init_def initialize_providers_def split: prod.splits sum.splits)
  have "provider_configs c = default_configs"
    using initialize_loop_provider_configs [of "dict_heap w default_configs" ?c0 w] l by simp
  moreover have "map_of (providers c) key \<noteq> None" if "key \<in> fst ` set (dict_heap w default_configs)" for key
    using initialize_loop_providers [OF l] that by blast
  ultimately show ?thesis by blast
qed


text \<open>
  C10. A client built without an argument refers to the dict at the default address, so all
  such clients refer to one dict. When one of them is configured, the new entries are in the
  configuration of every other one, whether or not the eager initialization that follows
  succeeds: a search on another such client that has no adapter for the key yet builds it
  from the shared entry, and a client constructed afterwards without an argument
  initializes an adapter for every key that was added.
\<close>

theorem default_configs_shared:
  "(SearchClient_init None w0 = (Inr c0, w0') \<longrightarrow> provider_configs c0 = default_configs)
   \<and> (provider_configs c1 = default_configs \<longrightarrow> provider_configs c2 = default_configs \<longrightarrow>
       configure c1 (Some new) w = (r, c1', w') \<longrightarrow>
         dict_heap w' (provider_configs c2) = dict_merge (dict_heap w default_configs) new
         \<and> (\<forall>key \<in> fst ` set new. map_of (dict_heap w' (provider_configs c2)) key \<noteq> None)
         \<and> (distinct (map fst new) \<longrightarrow>
              (\<forall>key cfg. (key, cfg) \<in> set new \<longrightarrow>
                 map_of (dict_heap w' (provider_configs c2)) key = Some cfg))
         \<and> (CHR '':'' \<notin> set k \<longrightarrow> k \<in> fst (get_supported_providers w') \<longrightarrow>
            map_of (providers c2) k = None \<longrightarrow>
              (\<forall>e w2. create_provider k (dict_get (dict_merge (dict_heap w default_configs) new) k [])
                         (snd (get_supported_providers w')) = (Inl e, w2) \<longrightarrow>
                 SearchClient_search c2 k q kw w' = (Inl e, c2, w2))
              \<and> (\<forall>inst w2. create_provider k (dict_get (dict_merge (dict_heap w default_configs) new) k [])
                         (snd (get_supported_providers w')) = (Inr inst, w2) \<longrightarrow>
                 ''specific_function'' \<notin> fst ` set kw \<longrightarrow>
                 SearchClient_search c2 k q kw w' =
                   (case adapter_search inst q (Some []) kw w2 of
                      (res, w3) \<Rightarrow> (res, c2\<lparr>providers := AList.update k inst (providers c2)\<rparr>, w3))))
         \<and> (\<forall>c3 w3. SearchClient_init None w' = (Inr c3, w3) \<longrightarrow>
               provider_configs c3 = default_configs
               \<and> (\<forall>key \<in> fst ` set new. map_of (providers c3) key \<noteq> None)))"
proof -
  have first: "SearchClient_init None w0 = (Inr c0, w0') \<longrightarrow> provider_configs c0 = default_configs"
    using SearchClient_init_default [of w0 c0 w0'] by blast
  have rest: "dict_heap w' (provider_configs c2) = dict_merge (dict_heap w default_configs) new
         \<and> (\<forall>key \<in> fst ` set new. map_of (dict_heap w' (provider_configs c2)) key \<noteq> None)
         \<and> (distinct (map fst new) \<longrightarrow>
              (\<forall>key cfg. (key, cfg) \<in> set new \<longrightarrow>
                 map_of (dict_heap w' (provider_configs c2)) key = Some cfg))
         \<and> (CHR '':'' \<notin> set k \<longrightarrow> k \<in> fst (get_supported_providers w') \<longrightarrow>
            map_of (providers c2) k = None \<longrightarrow>
              (\<forall>e w2. create_provider k (dict_get (dict_merge (dict_heap w default_configs) new) k [])
                         (snd (get_supported_providers w')) = (Inl e, w2) \<longrightarrow>
                 SearchClient_search c2 k q kw w' = (Inl e, c2, w2))
              \<and> (\<forall>inst w2. create_provider k (dict_get (dict_merge (dict_heap w default_configs) new) k [])
                         (snd (get_supported_providers w')) = (Inr inst, w2) \<longrightarrow>
                 ''specific_function'' \<notin> fst ` set kw \<longrightarrow>
                 SearchClient_search c2 k q kw w' =
                   (case adapter_search inst q (Some []) kw w2 of
                      (res, w3) \<Rightarrow> (res, c2\<lparr>providers := AList.update k inst (providers c2)\<rparr>, w3))))
         \<and> (\<forall>c3 w3. SearchClient_init None w' = (Inr c3, w3) \<longrightarrow>
               provider_configs c3 = default_configs
               \<and> (\<forall>key \<in> fst ` set new. map_of (providers c3) key \<noteq> None))"
    if c1: "provider_configs c1 = default_configs" and c2: "provider_configs c2 = default_configs"
      and conf: "configure c1 (Some new) w = (r, c1', w')"
  proof -
    have heap: "dict_heap w' (provider_configs c2) = dict_merge (dict_heap w default_configs) new"
      using configure_dict_heap [OF conf] c1 c2 by simp
    have keys: "fst ` set new \<subseteq> fst ` set (dict_heap w' default_configs)"
      using heap c2 by (simp add: dict_merge_keys)
    have present: "\<forall>key \<in> fst ` set new. map_of (dict_heap w' (provider_configs c2)) key \<noteq> None"
      using keys c2 by (auto simp: map_of_eq_None_iff)
    have entries: "map_of (dict_heap w' (provider_configs c2)) key = Some cfg"
      if "distinct (map fst new)" "(key, cfg) \<in> set new" for key cfg
      using that by (simp add: heap map_of_dict_merge_distinct map_add_def)
    have heap': "dict_heap (snd (get_supported_providers w')) (provider_configs c2) =
                   dict_merge (dict_heap w default_configs) new"
      using heap by (simp add: get_supported_providers_snd)
    have part: "partition_str (CHR '':'') k = (k, [], [])" if "CHR '':'' \<notin> set k"
      using that by (rule partition_str_no_sep)
    have demand: "CHR '':'' \<notin> set k \<longrightarrow> k \<in> fst (get_supported_providers w') \<longrightarrow>
            map_of (providers c2) k = None \<longrightarrow>
              (\<forall>e w2. create_provider k (dict_get (dict_merge (dict_heap w default_configs) new) k [])
                         (snd (get_supported_providers w')) = (Inl e, w2) \<longrightarrow>
                 SearchClient_search c2 k q kw w' = (Inl e, c2, w2))
              \<and> (\<forall>inst w2. create_provider k (dict_get (dict_merge (dict_heap w default_configs) new) k [])
                         (snd (get_supported_providers w')) = (Inr inst, w2) \<longrightarrow>
                 ''specific_function'' \<notin> fst ` set kw \<longrightarrow>
                 SearchClient_search c2 k q kw w' =
                   (case adapter_search inst q (Some []) kw w2 of
                      (res, w3) \<Rightarrow> (res, c2\<lparr>providers := AList.update k inst (providers c2)\<rparr>, w3)))"
      using search_on_demand_fails [OF part, of w' c2 _ _ q kw]
        search_on_demand [OF part, of w' c2 _ _ kw q]
      by (simp add: heap')
    have future: "provider_configs c3 = default_configs
               \<and> (\<forall>key \<in> fst ` set new. map_of (providers c3) key \<noteq> None)"
      if "SearchClient_init None w' = (Inr c3, w3)" for c3 w3
      using SearchClient_init_default [OF that] keys by blast
    show ?thesis
      using heap present entries demand future by blast
  qed
  show ?thesis
    using first rest by blast
qed


theorem default_configs_shared_witness:
  "fst (SearchClient_init None (mock_world (JObj []))) = Inr \<lparr>providers = [], provider_configs = 0\<rparr>
   \<and> provider_configs \<lparr>providers = [], provider_configs = 0\<rparr> = default_configs
   \<and> dict_heap (snd (snd (configure \<lparr>providers = [], provider_configs = 0\<rparr>
                               (Some [(''serp'', [(''api_key'', ''K'')])]) (mock_world (JObj [])))))
         (provider_configs \<lparr>providers = [], provider_configs = 0\<rparr>)
       = [(''serp'', [(''api_key'', ''K'')])]
   \<and> distinct (map fst [(''serp'', [(''api_key'', ''K'')])])
   \<and> CHR '':'' \<notin> set ''serp''
   \<and> ''serp'' \<in> fst (get_supported_providers
         (snd (snd (configure \<lparr>providers = [], provider_configs = 0\<rparr>
                      (Some [(''serp'', [(''api_key'', ''K'')])]) (mock_world (JObj []))))))
   \<and> ''specific_function'' \<notin> fst ` set ([] :: pydict)
   \<and> trace (snd (snd (SearchClient_search \<lparr>providers = [], provider_configs = 0\<rparr> ''serp'' ''cats'' []
         (snd (snd (configure \<lparr>providers = [], provider_configs = 0\<rparr>
                      (Some [(''serp'', [(''api_key'', ''K'')])]) (mock_world (JObj [])))))))) =
       [Instantiate ''SerpSearchProvider'', Instantiate ''SerpSearchProvider'',
        Call (GoogleSearch [(''q'', JStr ''cats''), (''api_key'', JStr ''K''), (''engine'', JStr ''google'')])]
   \<and> map fst (providers (projr (fst (SearchClient_init None
         (snd (snd (configure \<lparr>providers = [], provider_configs = 0\<rparr>
                      (Some [(''serp'', [(''api_key'', ''K'')])]) (mock_world (JObj []))))))))) = [''serp'']"
proof -
  let ?W = "mock_world (JObj [])"
  let ?C = "\<lparr>providers = [], provider_configs = 0\<rparr>"
  let ?new = "[(''serp'', [(''api_key'', ''K'')])]"
  let ?S = "{''serp'', ''tavily'', ''you''}"
  let ?W' = "?W\<lparr>supported_cache := Some ?S, dict_heap := (dict_heap ?W)(0 := ?new),
                 trace := [Instantiate ''SerpSearchProvider'']\<rparr>"
  have conf: "configure ?C (Some ?new) ?W =
     (Inr (), \<lparr>providers = [(''serp'', SerpSearchProvider ''K'')], provider_configs = 0\<rparr>, ?W')"
    using scan_repo_providers_dir
    by (simp add: client_defs get_supported_providers_def create_provider_serp_key dict_merge_def
        emit_def mock_world_def Let_def)
  have init: "SearchClient_init None ?W = (Inr ?C, ?W)"
    by (simp add: client_defs mock_world_def)
  show ?thesis
    using default_configs_shared [of ?W ?C ?W ?C ?C ?new ?W "Inr ()"
        "\<lparr>providers = [(''serp'', SerpSearchProvider ''K'')], provider_configs = 0\<rparr>" ?W'
        "''serp''" "''cats''" "[]"]
    unfolding conf init
    by (simp add: client_defs get_supported_providers_def create_provider_serp_key adapter_defs
        fun_upd_def Let_def)
qed


end
